theory Spec2Isabelle
  imports Complex_Main "HOL-Library.AList"
begin

section \<open>Floating-point values\<close>

text \<open>
  The engine computes on pandas columns of float64. A float is modelled as an exact real
  number or one of the three special values of IEEE 754; rounding and overflow are not
  modelled. Arithmetic on the special values follows IEEE 754: NaN is absorbing,
  \<open>inf - inf\<close>, \<open>0 * inf\<close>, \<open>0 / 0\<close> and \<open>inf / inf\<close> are NaN, a nonzero finite number
  divided by zero is an infinity, and every ordered comparison with NaN is false.
\<close>

datatype fl = Fin real | PInf | NInf | NaN

fun fneg :: "fl \<Rightarrow> fl" where
  "fneg (Fin a) = Fin (- a)"
| "fneg PInf = NInf"
| "fneg NInf = PInf"
| "fneg NaN = NaN"

fun fadd :: "fl \<Rightarrow> fl \<Rightarrow> fl" where
  "fadd (Fin a) (Fin b) = Fin (a + b)"
| "fadd NaN y = NaN"
| "fadd x NaN = NaN"
| "fadd PInf NInf = NaN"
| "fadd NInf PInf = NaN"
| "fadd PInf y = PInf"
| "fadd x PInf = PInf"
| "fadd NInf y = NInf"
| "fadd x NInf = NInf"

definition fsub :: "fl \<Rightarrow> fl \<Rightarrow> fl" where
  "fsub x y = fadd x (fneg y)"

fun fsign :: "fl \<Rightarrow> real" where
  "fsign (Fin a) = sgn a"
| "fsign PInf = 1"
| "fsign NInf = - 1"
| "fsign NaN = 0"

fun fmul :: "fl \<Rightarrow> fl \<Rightarrow> fl" where
  "fmul (Fin a) (Fin b) = Fin (a * b)"
| "fmul NaN y = NaN"
| "fmul x NaN = NaN"
| "fmul x y =
     (let s = fsign x * fsign y
      in if s = 0 then NaN else if 0 < s then PInf else NInf)"

fun fdiv :: "fl \<Rightarrow> fl \<Rightarrow> fl" where
  "fdiv (Fin a) (Fin b) =
     (if b \<noteq> 0 then Fin (a / b)
      else if a = 0 then NaN else if 0 < a then PInf else NInf)"
| "fdiv NaN y = NaN"
| "fdiv x NaN = NaN"
| "fdiv (Fin a) y = Fin 0"
| "fdiv x (Fin b) = (if 0 \<le> fsign x * (if b < 0 then - 1 else 1) then PInf else NInf)"
| "fdiv x y = NaN"

fun fsqrt :: "fl \<Rightarrow> fl" where
  "fsqrt (Fin a) = (if a < 0 then NaN else Fin (sqrt a))"
| "fsqrt PInf = PInf"
| "fsqrt NInf = NaN"
| "fsqrt NaN = NaN"

fun fabs :: "fl \<Rightarrow> fl" where
  "fabs (Fin a) = Fin \<bar>a\<bar>"
| "fabs PInf = PInf"
| "fabs NInf = PInf"
| "fabs NaN = NaN"

text \<open>\<open>fgt x y\<close> is the comparison \<open>x > y\<close>.\<close>

fun fgt :: "fl \<Rightarrow> fl \<Rightarrow> bool" where
  "fgt (Fin a) (Fin b) = (b < a)"
| "fgt NaN y = False"
| "fgt x NaN = False"
| "fgt NInf y = False"
| "fgt x PInf = False"
| "fgt x y = True"

section \<open>Series statistics\<close>

text \<open>
  \<open>Series.mean()\<close> and \<open>Series.std()\<close> skip NaN entries. The standard deviation is
  pandas' default, the sample standard deviation (\<open>ddof = 1\<close>): with fewer than two
  observations it is NaN, not 0.
\<close>

definition dropna :: "fl list \<Rightarrow> fl list" where
  "dropna xs = filter (\<lambda>x. x \<noteq> NaN) xs"

primrec fsum :: "fl list \<Rightarrow> fl" where
  "fsum [] = Fin 0"
| "fsum (x # xs) = fadd x (fsum xs)"

definition series_mean :: "fl list \<Rightarrow> fl" where
  "series_mean series =
     (let ys = dropna series
      in if ys = [] then NaN else fdiv (fsum ys) (Fin (real (length ys))))"

definition series_std :: "fl list \<Rightarrow> fl" where
  "series_std series =
     (let ys = dropna series; n = length ys
      in if n \<le> 1 then NaN
         else let avg = fdiv (fsum ys) (Fin (real n));
                  sqr = fsum (map (\<lambda>y. fmul (fsub avg y) (fsub avg y)) ys)
              in fsqrt (fdiv sqr (Fin (real n - 1))))"

text \<open>
  \<open>calculate_z_score\<close> of utils.py. The test \<open>std == 0\<close> is the test of the exact
  deviation: on float64 the deviation of a column of equal values can come out as a tiny
  number other than 0, which the model does not show.
\<close>

definition calculate_z_score :: "fl list \<Rightarrow> fl list" where
  "calculate_z_score series =
     (let mean = series_mean series; std = series_std series
      in if std = Fin 0 then map (\<lambda>_. Fin 0) series
         else map (\<lambda>x. fdiv (fsub x mean) std) series)"

section \<open>Rolling statistics\<close>

text \<open>
  \<open>Series.rolling(window=w, center=False)\<close> gives each position the trailing window of the
  \<open>w\<close> most recent entries, the position itself included. \<open>min_periods\<close> defaults to
  the window size, so the statistic is NaN at the first \<open>w - 1\<close> positions and wherever the
  window holds a NaN; pandas replaces an infinity by NaN before it rolls, so a window with
  an infinity has the statistic NaN too. On a window of finite values the rolling mean and
  the rolling standard deviation (again \<open>ddof = 1\<close>) are the mean and the standard
  deviation of the window.

  pandas obtains these numbers by sliding a float64 sum along the column, adding the value
  that enters the window and removing the one that leaves it. The model has the exact
  value of each window: the rounding error that values which have left the window leave
  behind in the sliding sum is not modelled, and no statement of this theory speaks of it.
\<close>

fun is_fin :: "fl \<Rightarrow> bool" where
  "is_fin (Fin a) = True"
| "is_fin x = False"

definition window_at :: "nat \<Rightarrow> fl list \<Rightarrow> nat \<Rightarrow> fl list" where
  "window_at w xs i = take w (drop (i + 1 - w) xs)"

definition rolling :: "(fl list \<Rightarrow> fl) \<Rightarrow> nat \<Rightarrow> fl list \<Rightarrow> fl list" where
  "rolling f w xs =
     map (\<lambda>i. if i + 1 < w then NaN
              else if list_all is_fin (window_at w xs i) then f (window_at w xs i)
              else NaN) [0..<length xs]"

section \<open>Tables\<close>

text \<open>
  A DataFrame is its row index and its columns, in order, each column a list of cells.
  A cell is a float or a text; a missing value is the float NaN. Rows are addressed by
  position, and every column of a table has one cell per index entry (\<open>wf_frame\<close>).
\<close>

datatype cell = Num fl | Str string

record frame =
  index :: "nat list"
  columns :: "(string \<times> cell list) list"

definition wf_frame :: "frame \<Rightarrow> bool" where
  "wf_frame df =
     (distinct (map fst (columns df)) \<and>
      list_all (\<lambda>p. length (snd p) = length (index df)) (columns df))"

text \<open>
  The exceptions of the engine. A column that is not there is a \<open>KeyError\<close> naming it;
  a numeric operation on a column that holds text is a \<open>TypeError\<close> (pandas raises
  TypeError or DataError there, depending on the operation).
\<close>

datatype error = KeyError string | TypeError | IndexError

definition empty_frame :: frame where
  "empty_frame = \<lparr>index = [], columns = []\<rparr>"

definition nrows :: "frame \<Rightarrow> nat" where
  "nrows df = length (index df)"

definition has_col :: "frame \<Rightarrow> string \<Rightarrow> bool" where
  "has_col df c = (c \<in> set (map fst (columns df)))"

definition get_col :: "frame \<Rightarrow> string \<Rightarrow> error + cell list" where
  "get_col df c =
     (case map_of (columns df) c of None \<Rightarrow> Inl (KeyError c) | Some xs \<Rightarrow> Inr xs)"

text \<open>
  \<open>df[c] = xs\<close>: an existing column is replaced where it stands, a new one is appended.
\<close>

definition set_col :: "frame \<Rightarrow> string \<Rightarrow> cell list \<Rightarrow> frame" where
  "set_col df c xs = df\<lparr>columns := AList.update c xs (columns df)\<rparr>"

fun is_num :: "cell \<Rightarrow> bool" where
  "is_num (Num x) = True"
| "is_num (Str s) = False"

fun is_str :: "cell \<Rightarrow> bool" where
  "is_str (Num x) = False"
| "is_str (Str s) = True"

fun num_of :: "cell \<Rightarrow> fl" where
  "num_of (Num x) = x"
| "num_of (Str s) = NaN"

fun str_of :: "cell \<Rightarrow> string" where
  "str_of (Num x) = []"
| "str_of (Str s) = s"

definition to_numeric :: "cell list \<Rightarrow> error + fl list" where
  "to_numeric xs = (if list_all is_num xs then Inr (map num_of xs) else Inl TypeError)"

definition get_num :: "frame \<Rightarrow> string \<Rightarrow> error + fl list" where
  "get_num df c = (case get_col df c of Inl e \<Rightarrow> Inl e | Inr xs \<Rightarrow> to_numeric xs)"

text \<open>
  \<open>df[[c1, ..., cn]]\<close>: the named columns in the order asked for; the first one missing
  is reported.
\<close>

fun pick_cols :: "frame \<Rightarrow> string list \<Rightarrow> error + (string \<times> cell list) list" where
  "pick_cols df [] = Inr []"
| "pick_cols df (c # cs) =
     (case get_col df c of
        Inl e \<Rightarrow> Inl e
      | Inr xs \<Rightarrow> (case pick_cols df cs of Inl e \<Rightarrow> Inl e | Inr r \<Rightarrow> Inr ((c, xs) # r)))"

definition select_cols :: "frame \<Rightarrow> string list \<Rightarrow> error + frame" where
  "select_cols df cs =
     (case pick_cols df cs of Inl e \<Rightarrow> Inl e | Inr r \<Rightarrow> Inr (df\<lparr>columns := r\<rparr>))"

text \<open>
  \<open>take_rows df ps\<close> is the table of the rows at the positions \<open>ps\<close>, in that order,
  each with its index label. Selection by a boolean mask, \<open>head\<close> and sorting are all
  instances of it.
\<close>

definition take_rows :: "frame \<Rightarrow> nat list \<Rightarrow> frame" where
  "take_rows df ps =
     \<lparr>index = map (nth (index df)) ps,
      columns = map (\<lambda>p. (fst p, map (nth (snd p)) ps)) (columns df)\<rparr>"

definition true_positions :: "bool list \<Rightarrow> nat list" where
  "true_positions keep = filter (nth keep) [0..<length keep]"

definition select_rows :: "frame \<Rightarrow> bool list \<Rightarrow> frame" where
  "select_rows df keep = take_rows df (true_positions keep)"

definition head_rows :: "nat \<Rightarrow> frame \<Rightarrow> frame" where
  "head_rows k df = take_rows df [0..<min k (nrows df)]"

subsection \<open>Sorting\<close>

text \<open>
  \<open>sort_values\<close> orders the rows by one column, NaN last in either direction. The sort
  is modelled as a stable insertion sort. The code sorts with pandas' default, quicksort,
  which fixes no order among rows with equal keys: where keys are equal the order of the
  model is one of the possible orders and need not be the program's. Text compares as
  Python strings do, character by character. A column mixing text and numbers cannot be
  ordered.
\<close>

fun insort_by :: "('a \<Rightarrow> 'a \<Rightarrow> bool) \<Rightarrow> 'a \<Rightarrow> 'a list \<Rightarrow> 'a list" where
  "insort_by le x [] = [x]"
| "insort_by le x (y # ys) = (if le x y then x # y # ys else y # insort_by le x ys)"

definition sort_by :: "('a \<Rightarrow> 'a \<Rightarrow> bool) \<Rightarrow> 'a list \<Rightarrow> 'a list" where
  "sort_by le xs = foldr (insort_by le) xs []"

fun str_le :: "string \<Rightarrow> string \<Rightarrow> bool" where
  "str_le [] t = True"
| "str_le (x # s) [] = False"
| "str_le (x # s) (y # t) =
     ((of_char x :: nat) < of_char y \<or> (x = y \<and> str_le s t))"

fun cell_le :: "cell \<Rightarrow> cell \<Rightarrow> bool" where
  "cell_le x (Num NaN) = True"
| "cell_le (Num NaN) y = False"
| "cell_le (Num a) (Num b) = (\<not> fgt a b)"
| "cell_le (Str s) (Str t) = str_le s t"
| "cell_le x y = True"

fun cell_ge :: "cell \<Rightarrow> cell \<Rightarrow> bool" where
  "cell_ge x (Num NaN) = True"
| "cell_ge (Num NaN) y = False"
| "cell_ge (Num a) (Num b) = (\<not> fgt b a)"
| "cell_ge (Str s) (Str t) = str_le t s"
| "cell_ge x y = True"

definition comparable :: "cell list \<Rightarrow> bool" where
  "comparable keys =
     (list_all is_num keys \<or> list_all (\<lambda>k. k = Num NaN \<or> is_str k) keys)"

definition argsort :: "bool \<Rightarrow> cell list \<Rightarrow> nat list" where
  "argsort ascending keys =
     map snd (sort_by (\<lambda>a b. (if ascending then cell_le else cell_ge) (fst a) (fst b))
                (zip keys [0..<length keys]))"

definition sort_values :: "frame \<Rightarrow> string \<Rightarrow> bool \<Rightarrow> error + frame" where
  "sort_values df by ascending =
     (case get_col df by of
        Inl e \<Rightarrow> Inl e
      | Inr keys \<Rightarrow>
          if comparable keys then Inr (take_rows df (argsort ascending keys))
          else Inl TypeError)"

subsection \<open>Reductions and concatenation\<close>

text \<open>\<open>max\<close> skips NaN; the maximum of nothing is NaN.\<close>

fun fmax2 :: "fl \<Rightarrow> fl \<Rightarrow> fl" where
  "fmax2 NaN y = y"
| "fmax2 x NaN = x"
| "fmax2 x y = (if fgt y x then y else x)"

definition nanmax :: "fl list \<Rightarrow> fl" where
  "nanmax xs = foldr fmax2 xs NaN"

text \<open>
  \<open>Series.sum()\<close>: numbers are added, NaN skipped; a column of text is concatenated.
\<close>

definition col_sum :: "cell list \<Rightarrow> error + cell" where
  "col_sum xs =
     (if list_all is_num xs then Inr (Num (fsum (dropna (map num_of xs))))
      else if list_all is_str xs then Inr (Str (concat (map str_of xs)))
      else Inl TypeError)"

definition first_seen :: "string list \<Rightarrow> string list" where
  "first_seen cs = rev (remdups (rev cs))"

text \<open>
  \<open>pd.concat(frames, ignore_index=True)\<close>: the rows of the tables one after the other
  under a fresh index; the columns are those of all the tables in the order they are first
  seen, and a table without a column contributes NaN.
\<close>

definition concat_frames :: "frame list \<Rightarrow> frame" where
  "concat_frames fs =
     \<lparr>index = [0..<sum_list (map nrows fs)],
      columns =
        map (\<lambda>c. (c, concat (map (\<lambda>f. case map_of (columns f) c of
                                          Some xs \<Rightarrow> xs
                                        | None \<Rightarrow> replicate (nrows f) (Num NaN)) fs)))
          (first_seen (concat (map (\<lambda>f. map fst (columns f)) fs)))\<rparr>"

text \<open>
  \<open>pd.DataFrame(rows)\<close> for a list of dictionaries: one row per dictionary; of no
  dictionary, the table without columns.
\<close>

definition frame_of_dicts :: "(string \<times> cell) list list \<Rightarrow> frame" where
  "frame_of_dicts rows =
     \<lparr>index = [0..<length rows],
      columns =
        map (\<lambda>c. (c, map (\<lambda>r. case map_of r c of Some v \<Rightarrow> v | None \<Rightarrow> Num NaN) rows))
          (first_seen (concat (map (map fst) rows)))\<rparr>"

section \<open>The detectors of anomaly_detection.py\<close>

definition Z_SCORE_THRESHOLD :: fl where
  "Z_SCORE_THRESHOLD = Fin 3"

text \<open>
  The cross-sectional detectors write their score columns into the table they are given,
  which is the caller's. The model returns that table as it stands when the call ends,
  normally or by an exception, next to the outcome of the call. The lines the functions
  log to the console are left out.
\<close>

definition detect_cost_anomalies :: "frame \<Rightarrow> fl \<Rightarrow> frame \<times> (error + frame)" where
  "detect_cost_anomalies costs_df threshold =
     (case get_num costs_df ''variance_pct'' of
        Inl e \<Rightarrow> (costs_df, Inl e)
      | Inr v \<Rightarrow>
     let df1 = set_col costs_df ''variance_z_score'' (map Num (calculate_z_score v)) in
     (case get_num df1 ''actual_amount'' of
        Inl e \<Rightarrow> (df1, Inl e)
      | Inr a \<Rightarrow>
     let df2 = set_col df1 ''actual_z_score'' (map Num (calculate_z_score a)) in
     (df2,
      case get_num df2 ''variance_z_score'' of Inl e \<Rightarrow> Inl e | Inr vz \<Rightarrow>
      case get_num df2 ''actual_z_score'' of Inl e \<Rightarrow> Inl e | Inr az \<Rightarrow>
      let anomalies =
            select_rows df2
              (map2 (\<lambda>x y. fgt (fabs x) threshold \<or> fgt (fabs y) threshold) vz az) in
      case get_num anomalies ''variance_z_score'' of Inl e \<Rightarrow> Inl e | Inr xv \<Rightarrow>
      let anomalies1 =
            set_col anomalies ''anomaly_type''
              (map (\<lambda>x. Str (if fgt (fabs x) threshold then ''High Variance''
                             else ''High Amount'')) xv) in
      case get_num anomalies1 ''variance_z_score'' of Inl e \<Rightarrow> Inl e | Inr sv \<Rightarrow>
      case get_num anomalies1 ''actual_z_score'' of Inl e \<Rightarrow> Inl e | Inr sa \<Rightarrow>
      let anomalies2 =
            set_col anomalies1 ''severity''
              (map2 (\<lambda>x y. Num (nanmax [fabs x, fabs y])) sv sa)
      in sort_values anomalies2 ''severity'' False)))"

definition detect_loan_anomalies :: "frame \<Rightarrow> fl \<Rightarrow> frame \<times> (error + frame)" where
  "detect_loan_anomalies loans_df threshold =
     (case get_num loans_df ''pd'' of
        Inl e \<Rightarrow> (loans_df, Inl e)
      | Inr p \<Rightarrow>
     let df1 = set_col loans_df ''pd_z_score'' (map Num (calculate_z_score p)) in
     (case get_num df1 ''ecl'' of
        Inl e \<Rightarrow> (df1, Inl e)
      | Inr l \<Rightarrow>
     let df2 = set_col df1 ''ecl_z_score'' (map Num (calculate_z_score l)) in
     (case get_num df2 ''ead'' of
        Inl e \<Rightarrow> (df2, Inl e)
      | Inr d \<Rightarrow>
     let df3 = set_col df2 ''ead_z_score'' (map Num (calculate_z_score d)) in
     (df3,
      case get_num df3 ''pd_z_score'' of Inl e \<Rightarrow> Inl e | Inr pz \<Rightarrow>
      case get_num df3 ''ecl_z_score'' of Inl e \<Rightarrow> Inl e | Inr lz \<Rightarrow>
      case get_num df3 ''ead_z_score'' of Inl e \<Rightarrow> Inl e | Inr dz \<Rightarrow>
      let anomalies =
            select_rows df3
              (map2 (\<lambda>x yz. fgt (fabs x) threshold \<or> fgt (fabs (fst yz)) threshold
                              \<or> fgt (fabs (snd yz)) threshold) pz (zip lz dz)) in
      case get_num anomalies ''pd_z_score'' of Inl e \<Rightarrow> Inl e | Inr xp \<Rightarrow>
      case get_num anomalies ''ecl_z_score'' of Inl e \<Rightarrow> Inl e | Inr xl \<Rightarrow>
      let anomalies1 =
            set_col anomalies ''anomaly_type''
              (map2 (\<lambda>x y. Str (if fgt (fabs x) threshold then ''High PD''
                               else if fgt (fabs y) threshold then ''High ECL''
                               else ''High EAD'')) xp xl) in
      case get_num anomalies1 ''pd_z_score'' of Inl e \<Rightarrow> Inl e | Inr sp \<Rightarrow>
      case get_num anomalies1 ''ecl_z_score'' of Inl e \<Rightarrow> Inl e | Inr sl \<Rightarrow>
      case get_num anomalies1 ''ead_z_score'' of Inl e \<Rightarrow> Inl e | Inr sd \<Rightarrow>
      let anomalies2 =
            set_col anomalies1 ''severity''
              (map2 (\<lambda>x yz. Num (nanmax [fabs x, fabs (fst yz), fabs (snd yz)])) sp (zip sl sd))
      in sort_values anomalies2 ''severity'' False))))"

text \<open>
  The time-series detector sorts into a copy and works on the copy, so it returns only its
  outcome. \<open>time_series_scores\<close> is the function up to the point where it flags: the
  sorted copy with the columns \<open>rolling_mean\<close>, \<open>rolling_std\<close> and \<open>rolling_z_score\<close>,
  or nothing when the window is below 2 and the function returns early. The window size is
  computed on Python's integers: for the table without rows it is \<open>-1\<close>.
\<close>

definition time_series_scores :: "frame \<Rightarrow> string \<Rightarrow> string \<Rightarrow> error + frame option" where
  "time_series_scores df0 value_col date_col =
     (case sort_values df0 date_col True of Inl e \<Rightarrow> Inl e | Inr df \<Rightarrow>
      let window = min 3 (int (nrows df) - 1) in
      if window < 2 then Inr None
      else
      case get_num df value_col of Inl e \<Rightarrow> Inl e | Inr v1 \<Rightarrow>
      let df1 = set_col df ''rolling_mean'' (map Num (rolling series_mean (nat window) v1)) in
      case get_num df1 value_col of Inl e \<Rightarrow> Inl e | Inr v2 \<Rightarrow>
      let df2 = set_col df1 ''rolling_std'' (map Num (rolling series_std (nat window) v2)) in
      case get_num df2 value_col of Inl e \<Rightarrow> Inl e | Inr v3 \<Rightarrow>
      case get_num df2 ''rolling_mean'' of Inl e \<Rightarrow> Inl e | Inr rm \<Rightarrow>
      case get_num df2 ''rolling_std'' of Inl e \<Rightarrow> Inl e | Inr rs \<Rightarrow>
      Inr (Some (set_col df2 ''rolling_z_score''
                   (map Num (map2 fdiv (map2 fsub v3 rm) rs)))))"

definition detect_time_series_anomalies :: "frame \<Rightarrow> string \<Rightarrow> string \<Rightarrow> error + frame" where
  "detect_time_series_anomalies df0 value_col date_col =
     (case time_series_scores df0 value_col date_col of
        Inl e \<Rightarrow> Inl e
      | Inr None \<Rightarrow> Inr empty_frame
      | Inr (Some df) \<Rightarrow>
          (case get_num df ''rolling_z_score'' of
             Inl e \<Rightarrow> Inl e
           | Inr z \<Rightarrow> Inr (select_rows df (map (\<lambda>x. fgt (fabs x) Z_SCORE_THRESHOLD) z))))"

definition kpi_columns :: "string list" where
  "kpi_columns = [''total_revenue'', ''actual_amount'', ''profit'', ''variance_pct'']"

text \<open>The loop of \<open>analyze_monthly_kpi_anomalies\<close> over the KPI columns.\<close>

fun kpi_loop :: "frame \<Rightarrow> string list \<Rightarrow> frame list \<Rightarrow> error + frame list" where
  "kpi_loop monthly_kpis [] anomalies = Inr anomalies"
| "kpi_loop monthly_kpis (col # cols) anomalies =
     (if has_col monthly_kpis col then
        (case detect_time_series_anomalies monthly_kpis col ''month'' of
           Inl e \<Rightarrow> Inl e
         | Inr col_anomalies \<Rightarrow>
             if 0 < nrows col_anomalies then
               (case select_cols
                       (set_col col_anomalies ''kpi_name''
                          (replicate (nrows col_anomalies) (Str col)))
                       [''month'', ''kpi_name'', col, ''rolling_z_score''] of
                  Inl e \<Rightarrow> Inl e
                | Inr part \<Rightarrow> kpi_loop monthly_kpis cols (anomalies @ [part]))
             else kpi_loop monthly_kpis cols anomalies)
      else kpi_loop monthly_kpis cols anomalies)"

definition analyze_monthly_kpi_anomalies :: "frame \<Rightarrow> error + frame" where
  "analyze_monthly_kpi_anomalies monthly_kpis =
     (case kpi_loop monthly_kpis kpi_columns [] of
        Inl e \<Rightarrow> Inl e
      | Inr anomalies \<Rightarrow>
          if anomalies \<noteq> [] then Inr (concat_frames anomalies) else Inr empty_frame)"

section \<open>The report\<close>

text \<open>
  One summary dictionary of \<open>generate_anomaly_report\<close>: the count, the cell of the
  first row in the column \<open>top_col\<close>, the largest value of the column \<open>sev_col\<close>
  (absolute value first, for the KPIs), and the total of the column \<open>sum_col\<close>
  (the constant 0 for the KPIs, which have none).
\<close>

definition first_cell :: "frame \<Rightarrow> string \<Rightarrow> error + cell" where
  "first_cell df c =
     (if nrows df = 0 then Inl IndexError
      else case get_col df c of
             Inl e \<Rightarrow> Inl e
           | Inr xs \<Rightarrow> (case xs of [] \<Rightarrow> Inl IndexError | x # r \<Rightarrow> Inr x))"

definition summary_row ::
  "string \<Rightarrow> frame \<Rightarrow> string \<Rightarrow> string \<Rightarrow> bool \<Rightarrow> string option
     \<Rightarrow> error + (string \<times> cell) list" where
  "summary_row category found top_col sev_col absolute sum_col =
     (case (if 0 < nrows found then first_cell found top_col else Inr (Str ''N/A'')) of
        Inl e \<Rightarrow> Inl e | Inr top_issue \<Rightarrow>
      case get_num found sev_col of Inl e \<Rightarrow> Inl e | Inr sev \<Rightarrow>
      case (case sum_col of None \<Rightarrow> Inr (Num (Fin 0))
            | Some c \<Rightarrow> (case get_col found c of Inl e \<Rightarrow> Inl e | Inr xs \<Rightarrow> col_sum xs)) of
        Inl e \<Rightarrow> Inl e | Inr magnitude \<Rightarrow>
      Inr [(''category'', Str category),
           (''anomaly_count'', Num (Fin (real (nrows found)))),
           (''top_issue'', top_issue),
           (''max_severity'', Num (nanmax (if absolute then map fabs sev else sev))),
           (''total_variance'', magnitude)])"

definition generate_anomaly_report ::
  "frame \<Rightarrow> frame \<Rightarrow> frame \<Rightarrow> (frame \<times> frame) \<times> (error + frame)" where
  "generate_anomaly_report costs_df loans_df monthly_kpis =
     (case detect_cost_anomalies costs_df Z_SCORE_THRESHOLD of
        (costs1, Inl e) \<Rightarrow> ((costs1, loans_df), Inl e)
      | (costs1, Inr cost_anomalies) \<Rightarrow>
     (case detect_loan_anomalies loans_df Z_SCORE_THRESHOLD of
        (loans1, Inl e) \<Rightarrow> ((costs1, loans1), Inl e)
      | (loans1, Inr loan_anomalies) \<Rightarrow>
     ((costs1, loans1),
      case analyze_monthly_kpi_anomalies monthly_kpis of Inl e \<Rightarrow> Inl e | Inr kpi_anomalies \<Rightarrow>
      case (if 0 < nrows cost_anomalies
            then (case summary_row ''Costs'' cost_anomalies ''business_unit'' ''severity''
                         False (Some ''variance_amount'') of
                    Inl e \<Rightarrow> Inl e | Inr r \<Rightarrow> Inr [r])
            else Inr []) of
        Inl e \<Rightarrow> Inl e | Inr s1 \<Rightarrow>
      case (if 0 < nrows loan_anomalies
            then (case summary_row ''Loans'' loan_anomalies ''loan_type'' ''severity''
                         False (Some ''ecl'') of
                    Inl e \<Rightarrow> Inl e | Inr r \<Rightarrow> Inr (s1 @ [r]))
            else Inr s1) of
        Inl e \<Rightarrow> Inl e | Inr s2 \<Rightarrow>
      case (if 0 < nrows kpi_anomalies
            then (case summary_row ''KPIs'' kpi_anomalies ''kpi_name'' ''rolling_z_score''
                         True None of
                    Inl e \<Rightarrow> Inl e | Inr r \<Rightarrow> Inr (s2 @ [r]))
            else Inr s2) of
        Inl e \<Rightarrow> Inl e | Inr summary \<Rightarrow>
      Inr (frame_of_dicts summary))))"

section \<open>The pipeline\<close>

text \<open>
  \<open>run\<close> works on the two tables of the dictionary \<open>data\<close> and on the monthly KPIs.
  Its effects are the score columns written into the two tables and the files handed to
  \<open>save_output\<close>; the model returns the tables as the call leaves them, the files saved
  up to the end of the call (name and table, in order), and the outcome.
\<close>

record data =
  costs :: frame
  loans :: frame

definition combined_part :: "frame \<Rightarrow> string list \<Rightarrow> string \<Rightarrow> error + frame" where
  "combined_part anomalies cols category =
     (case select_cols anomalies cols of
        Inl e \<Rightarrow> Inl e
      | Inr s \<Rightarrow>
          Inr (set_col (head_rows 10 s) ''category''
                 (replicate (nrows (head_rows 10 s)) (Str category))))"

definition run :: "data \<Rightarrow> frame \<Rightarrow> data \<times> (string \<times> frame) list \<times> (error + frame)" where
  "run d monthly_kpis =
     (case generate_anomaly_report (costs d) (loans d) monthly_kpis of
        ((c1, l1), Inl e) \<Rightarrow> (\<lparr>costs = c1, loans = l1\<rparr>, [], Inl e)
      | ((c1, l1), Inr summary) \<Rightarrow>
     (case detect_cost_anomalies c1 Z_SCORE_THRESHOLD of
        (c2, Inl e) \<Rightarrow> (\<lparr>costs = c2, loans = l1\<rparr>, [], Inl e)
      | (c2, Inr cost_anomalies) \<Rightarrow>
     (case detect_loan_anomalies l1 Z_SCORE_THRESHOLD of
        (l2, Inl e) \<Rightarrow> (\<lparr>costs = c2, loans = l2\<rparr>, [], Inl e)
      | (l2, Inr loan_anomalies) \<Rightarrow>
     (\<lparr>costs = c2, loans = l2\<rparr>,
      case analyze_monthly_kpi_anomalies monthly_kpis of
        Inl e \<Rightarrow> ([], Inl e)
      | Inr kpi_anomalies \<Rightarrow>
      let saved =
            [(''anomalies_summary.csv'', summary),
             (''cost_anomalies.csv'', cost_anomalies),
             (''loan_anomalies.csv'', loan_anomalies)]
            @ (if 0 < nrows kpi_anomalies then [(''kpi_anomalies.csv'', kpi_anomalies)]
               else []) in
      case (if 0 < nrows cost_anomalies
            then (case combined_part cost_anomalies
                         [''cost_id'', ''business_unit'', ''anomaly_type'', ''severity'']
                         ''Cost'' of
                    Inl e \<Rightarrow> Inl e | Inr part \<Rightarrow> Inr [part])
            else Inr []) of
        Inl e \<Rightarrow> (saved, Inl e) | Inr combined1 \<Rightarrow>
      case (if 0 < nrows loan_anomalies
            then (case combined_part loan_anomalies
                         [''loan_id'', ''loan_type'', ''anomaly_type'', ''severity'']
                         ''Loan'' of
                    Inl e \<Rightarrow> Inl e | Inr part \<Rightarrow> Inr (combined1 @ [part]))
            else Inr combined1) of
        Inl e \<Rightarrow> (saved, Inl e) | Inr combined \<Rightarrow>
      (saved @ (if combined \<noteq> [] then [(''anomalies.csv'', concat_frames combined)] else []),
       Inr summary)))))"

text \<open>
  \<open>main\<close> of run_analytics.py, from its sixth step on: the five steps before it load
  the data and compute the KPIs in modules this development does not cover, so their
  results are the arguments. The \<open>try\<close> around the whole of \<open>main\<close> turns any
  exception into the exit code 1.
\<close>

definition main :: "data \<Rightarrow> frame \<Rightarrow> int" where
  "main d monthly_kpis =
     (case snd (snd (run d monthly_kpis)) of Inl e \<Rightarrow> 1 | Inr anomalies \<Rightarrow> 0)"

section \<open>Example tables\<close>

text \<open>
  Seven cost records. The scores of \<open>variance_pct\<close> are its values (mean 0, deviation 1);
  \<open>actual_amount\<close> has mean 10 and deviation 9. Record 0 stands out on both fields, more
  on the second.
\<close>

abbreviation costs_7 :: frame where
  "costs_7 \<equiv>
     \<lparr>index = [0, 1, 2, 3, 4, 5, 6],
      columns = [(''variance_pct'', map (\<lambda>x. Num (Fin x)) [2, - 1, - 1, 0, 0, 0, 0]),
                 (''actual_amount'', map (\<lambda>x. Num (Fin x)) [30, 3, 6, 7, 8, 8, 8])]\<rparr>"

text \<open>
  Seven loans. Loan 0 stands out on \<open>ecl\<close> and \<open>ead\<close> but not on \<open>pd\<close>; loan 1 on all
  three at the threshold \<open>3/5\<close>; loans 2 and 3 on \<open>pd\<close> alone.
\<close>

abbreviation loans_7 :: frame where
  "loans_7 \<equiv>
     \<lparr>index = [0, 1, 2, 3, 4, 5, 6],
      columns = [(''pd'', map (\<lambda>x. Num (Fin x)) [0, 2, - 1, - 1, 0, 0, 0]),
                 (''ecl'', map (\<lambda>x. Num (Fin x)) [30, 3, 6, 7, 8, 8, 8]),
                 (''ead'', map (\<lambda>x. Num (Fin x)) [30, 3, 6, 7, 8, 8, 8])]\<rparr>"




text \<open>
  Loans without the watched column \<open>pd\<close>, costs without \<open>variance_pct\<close>, and monthly
  KPIs with and without the period column.
\<close>

abbreviation loans_no_pd :: frame where
  "loans_no_pd \<equiv>
     \<lparr>index = [0, 1],
      columns = [(''ecl'', [Num (Fin 30), Num (Fin 3)]),
                 (''ead'', [Num (Fin 500), Num (Fin 700)])]\<rparr>"

abbreviation costs_no_variance :: frame where
  "costs_no_variance \<equiv>
     \<lparr>index = [0, 1],
      columns = [(''actual_amount'', [Num (Fin 30), Num (Fin 3)])]\<rparr>"

abbreviation kpis_4 :: frame where
  "kpis_4 \<equiv>
     \<lparr>index = [0, 1, 2, 3],
      columns = [(''month'', [Str ''2024-01'', Str ''2024-02'', Str ''2024-03'', Str ''2024-04'']),
                 (''profit'', map (\<lambda>x. Num (Fin x)) [1, 2, 100, 3])]\<rparr>"

abbreviation kpis_3 :: frame where
  "kpis_3 \<equiv>
     \<lparr>index = [0, 1, 2],
      columns = [(''month'', [Str ''2024-01'', Str ''2024-02'', Str ''2024-03'']),
                 (''profit'', map (\<lambda>x. Num (Fin x)) [1, 2, 100])]\<rparr>"

abbreviation kpis_no_month :: frame where
  "kpis_no_month \<equiv>
     \<lparr>index = [0, 1, 2, 3],
      columns = [(''profit'', map (\<lambda>x. Num (Fin x)) [1, 2, 100, 3])]\<rparr>"

text \<open>
  Monthly series: two points out of order; five equal values followed by a value far
  above them.
\<close>

abbreviation kpis_2 :: frame where
  "kpis_2 \<equiv>
     \<lparr>index = [0, 1],
      columns = [(''month'', [Str ''2024-02'', Str ''2024-01'']),
                 (''profit'', [Num (Fin 5), Num (Fin 900)])]\<rparr>"

abbreviation kpis_flat_then_outlier :: frame where
  "kpis_flat_then_outlier \<equiv>
     \<lparr>index = [0, 1, 2, 3, 4, 5],
      columns = [(''month'', [Str ''2024-01'', Str ''2024-02'', Str ''2024-03'',
                              Str ''2024-04'', Str ''2024-05'', Str ''2024-06'']),
                 (''total_revenue'', [Num (Fin 10), Num (Fin 10), Num (Fin 10),
                                      Num (Fin 10), Num (Fin 10), Num (Fin 1000)])]\<rparr>"

text \<open>
  Four cost records and four loans: the last stands out on the first watched field, the
  first on the second.
\<close>

abbreviation costs_4 :: frame where
  "costs_4 \<equiv>
     \<lparr>index = [10, 11, 12, 13],
      columns = [(''variance_pct'', [Num (Fin 0), Num (Fin 0), Num (Fin 0), Num (Fin 4)]),
                 (''actual_amount'', [Num (Fin 8), Num (Fin 0), Num (Fin 0), Num (Fin 0)])]\<rparr>"

abbreviation loans_4 :: frame where
  "loans_4 \<equiv>
     \<lparr>index = [20, 21, 22, 23],
      columns = [(''pd'', [Num (Fin 0), Num (Fin 0), Num (Fin 0), Num (Fin 4)]),
                 (''ecl'', [Num (Fin 8), Num (Fin 0), Num (Fin 0), Num (Fin 0)]),
                 (''ead'', [Num (Fin 1), Num (Fin 1), Num (Fin 1), Num (Fin 1)])]\<rparr>"

section \<open>Statistics of finite columns\<close>

lemma fsub_Fin [simp]: "fsub (Fin a) (Fin b) = Fin (a - b)"
  by (simp add: fsub_def)

lemma fsum_Fin_map [simp]: "fsum (map (\<lambda>x. Fin (g x)) xs) = Fin (sum_list (map g xs))"
  by (induction xs) simp_all

lemma dropna_Fin_map [simp]: "dropna (map (\<lambda>x. Fin (g x)) xs) = map (\<lambda>x. Fin (g x)) xs"
  by (induction xs) (simp_all add: dropna_def)

lemma series_mean_Fin:
  "series_mean (map Fin xs) = (if xs = [] then NaN else Fin (sum_list xs / real (length xs)))"
  by (simp add: series_mean_def)

lemma series_std_Fin:
  "series_std (map Fin xs) =
     (if length xs \<le> 1 then NaN
      else Fin (sqrt ((\<Sum>x\<leftarrow>xs. (sum_list xs / real (length xs) - x) * (sum_list xs / real (length xs) - x))
                      / (real (length xs) - 1))))"
proof (cases "length xs \<le> 1")
  case True
  then show ?thesis by (simp add: series_std_def)
next
  case False
  then have n: "real (length xs) \<noteq> 0" "real (length xs) - 1 > 0" by auto
  have nonneg: "0 \<le> (\<Sum>x\<leftarrow>xs. (sum_list xs / real (length xs) - x) * (sum_list xs / real (length xs) - x))"
    by (rule sum_list_nonneg) auto
  show ?thesis using False n nonneg
    by (simp add: series_std_def Let_def comp_def not_less divide_nonneg_pos)
qed

lemma calculate_z_score_empty: "calculate_z_score [] = []"
  by (simp add: calculate_z_score_def Let_def)

lemma sum_list_replicate_real: "sum_list (replicate n (c::real)) = real n * c"
  by (induction n) (simp_all add: algebra_simps)

lemma series_std_constant:
  assumes n: "2 \<le> n" shows "series_std (replicate n (Fin c)) = Fin 0"
proof -
  have m: "sum_list (replicate n c) / real n = c" using n by (simp add: sum_list_replicate_real)
  have z: "(\<Sum>x\<leftarrow>replicate n c. (c - x) * (c - x)) = 0"
    by (induction n) simp_all
  have "series_std (map Fin (replicate n c)) = Fin 0"
    unfolding series_std_Fin m using n by (simp add: sum_list_replicate_real)
  then show ?thesis by simp
qed

lemma calculate_z_score_constant:
  "2 \<le> n \<Longrightarrow> calculate_z_score (replicate n (Fin c)) = replicate n (Fin 0)"
  unfolding calculate_z_score_def by (simp add: series_std_constant Let_def)


section \<open>Tables: lookups, row selection, sorting\<close>

lemma length_calculate_z_score [simp]: "length (calculate_z_score xs) = length xs"
  by (simp add: calculate_z_score_def Let_def)

lemma get_col_set_col:
  "get_col (set_col df c xs) c' = (if c' = c then Inr xs else get_col df c')"
  by (simp add: get_col_def set_col_def update_conv')

lemma to_numeric_Num [simp]: "to_numeric (map Num xs) = Inr xs"
  by (simp add: to_numeric_def list_all_iff comp_def)

lemma get_num_set_col_same [simp]: "get_num (set_col df c (map Num xs)) c = Inr xs"
  by (simp add: get_num_def get_col_set_col)

lemma get_num_set_col_other [simp]: "c' \<noteq> c \<Longrightarrow> get_num (set_col df c xs) c' = get_num df c'"
  by (simp add: get_num_def get_col_set_col)

lemma index_set_col [simp]: "index (set_col df c xs) = index df"
  by (simp add: set_col_def)

lemma nrows_set_col [simp]: "nrows (set_col df c xs) = nrows df"
  by (simp add: nrows_def)

lemma list_all_update:
  "list_all P al \<Longrightarrow> P (k, v) \<Longrightarrow> list_all P (AList.update k v al)"
  by (induction al) auto

lemma wf_set_col:
  "wf_frame df \<Longrightarrow> length xs = nrows df \<Longrightarrow> wf_frame (set_col df c xs)"
  by (simp add: wf_frame_def set_col_def distinct_update list_all_update nrows_def)

lemma map_of_take_cols:
  "map_of (map (\<lambda>p. (fst p, f (snd p))) al) c = map_option f (map_of al c)"
  by (induction al) auto

lemma get_col_take_rows:
  "get_col (take_rows df ps) c =
     (case get_col df c of Inl e \<Rightarrow> Inl e | Inr xs \<Rightarrow> Inr (map (nth xs) ps))"
  by (simp add: get_col_def take_rows_def
      map_of_take_cols [where f = "\<lambda>xs. map (nth xs) ps"] split: option.splits)

lemma index_take_rows [simp]: "index (take_rows df ps) = map (nth (index df)) ps"
  by (simp add: take_rows_def)

lemma nrows_take_rows [simp]: "nrows (take_rows df ps) = length ps"
  by (simp add: nrows_def)

lemma wf_take_rows: "wf_frame df \<Longrightarrow> wf_frame (take_rows df ps)"
  by (simp add: wf_frame_def take_rows_def comp_def list_all_iff)

lemma get_num_take_rows:
  assumes "get_num df c = Inr xs" and "\<forall>i\<in>set ps. i < length xs"
  shows "get_num (take_rows df ps) c = Inr (map (nth xs) ps)"
proof -
  from assms(1) obtain cells where c: "get_col df c = Inr cells"
    and n: "list_all is_num cells" and x: "xs = map num_of cells"
    by (auto simp: get_num_def to_numeric_def split: sum.splits if_splits)
  have "list_all is_num (map (nth cells) ps)"
    using n assms(2) x by (auto simp: list_all_iff)
  moreover have "map num_of (map (nth cells) ps) = map (nth xs) ps"
    using assms(2) x by simp
  ultimately show ?thesis
    by (simp add: get_num_def get_col_take_rows c to_numeric_def)
qed

lemma set_true_positions: "set (true_positions keep) = {i. i < length keep \<and> keep ! i}"
  by (auto simp: true_positions_def)

lemma get_num_length:
  "wf_frame df \<Longrightarrow> get_num df c = Inr xs \<Longrightarrow> length xs = nrows df"
  by (auto simp: get_num_def get_col_def to_numeric_def wf_frame_def list_all_iff nrows_def
      split: option.splits if_splits dest!: map_of_SomeD)

lemma get_col_length:
  "wf_frame df \<Longrightarrow> get_col df c = Inr xs \<Longrightarrow> length xs = nrows df"
  by (auto simp: get_col_def wf_frame_def list_all_iff nrows_def
      split: option.splits if_splits dest!: map_of_SomeD)

lemma length_insort_by [simp]: "length (insort_by le x xs) = Suc (length xs)"
  by (induction xs) simp_all

lemma set_insort_by [simp]: "set (insort_by le x xs) = insert x (set xs)"
  by (induction xs) auto

lemma length_sort_by [simp]: "length (sort_by le xs) = length xs"
  by (induction xs) (simp_all add: sort_by_def)

lemma set_sort_by [simp]: "set (sort_by le xs) = set xs"
  by (induction xs) (simp_all add: sort_by_def)

lemma length_argsort [simp]: "length (argsort asc keys) = length keys"
  by (simp add: argsort_def)

lemma set_argsort [simp]: "set (argsort asc keys) = {0..<length keys}"
proof -
  have "snd ` set (zip keys [0..<length keys]) = {0..<length keys}"
    by (metis length_upt map_snd_zip minus_nat.diff_0 set_map set_upt)
  then show ?thesis by (simp add: argsort_def)
qed


section \<open>The cross-sectional detectors, computed\<close>

text \<open>
  On a well-formed table whose watched columns are numeric the cost detector returns: the
  caller's table with the two score columns, and the rows at the flagged positions with
  their label and severity, sorted.
\<close>

lemma map2_same: "map2 f (map g ps) (map h ps) = map (\<lambda>i. f (g i) (h i)) ps"
  by (induction ps) simp_all

lemma comparable_Num [simp]: "comparable (map (\<lambda>i. Num (g i)) ps)"
  by (simp add: comparable_def list_all_iff)

lemma sort_values_set_col:
  "sort_values (set_col df c (map (\<lambda>i. Num (g i)) ps)) c asc =
     Inr (take_rows (set_col df c (map (\<lambda>i. Num (g i)) ps))
            (argsort asc (map (\<lambda>i. Num (g i)) ps)))"
  by (simp add: sort_values_def get_col_set_col)

lemma detect_cost_anomalies_eq:
  assumes wf: "wf_frame df"
    and v: "get_num df ''variance_pct'' = Inr v"
    and a: "get_num df ''actual_amount'' = Inr a"
  shows "detect_cost_anomalies df T =
     (let vz = calculate_z_score v; az = calculate_z_score a;
          df2 = set_col (set_col df ''variance_z_score'' (map Num vz))
                  ''actual_z_score'' (map Num az);
          ps = true_positions (map2 (\<lambda>x y. fgt (fabs x) T \<or> fgt (fabs y) T) vz az);
          found = set_col (set_col (take_rows df2 ps) ''anomaly_type''
                     (map (\<lambda>i. Str (if fgt (fabs (vz ! i)) T then ''High Variance''
                                     else ''High Amount'')) ps))
                   ''severity'' (map (\<lambda>i. Num (nanmax [fabs (vz ! i), fabs (az ! i)])) ps)
      in (df2, Inr (take_rows found
                     (argsort False (map (\<lambda>i. Num (nanmax [fabs (vz ! i), fabs (az ! i)])) ps)))))"
proof -
  define vz where "vz = calculate_z_score v"
  define az where "az = calculate_z_score a"
  define df2 where "df2 = set_col (set_col df ''variance_z_score'' (map Num vz))
                  ''actual_z_score'' (map Num az)"
  define ps where "ps = true_positions (map2 (\<lambda>x y. fgt (fabs x) T \<or> fgt (fabs y) T) vz az)"
  have lv: "length v = nrows df" and la: "length a = nrows df"
    using wf v a by (auto dest: get_num_length)
  have a1: "get_num (set_col df ''variance_z_score'' (map Num vz)) ''actual_amount'' = Inr a"
    using a by simp
  have g1: "get_num df2 ''variance_z_score'' = Inr vz" by (simp add: df2_def)
  have g2: "get_num df2 ''actual_z_score'' = Inr az" by (simp add: df2_def)
  have rng: "\<forall>i\<in>set ps. i < length vz" "\<forall>i\<in>set ps. i < length az"
    by (auto simp: ps_def set_true_positions)
  have t1: "get_num (take_rows df2 ps) ''variance_z_score'' = Inr (map (nth vz) ps)"
    using g1 rng(1) by (rule get_num_take_rows)
  have t2: "get_num (take_rows df2 ps) ''actual_z_score'' = Inr (map (nth az) ps)"
    using g2 rng(2) by (rule get_num_take_rows)
  show ?thesis
    unfolding detect_cost_anomalies_def Let_def v sum.case vz_def [symmetric] a1
      az_def [symmetric] df2_def [symmetric] g1 g2 select_rows_def ps_def [symmetric] t1
    by (simp add: t1 t2 map2_same sort_values_set_col comp_def del: fabs.simps fgt.simps)
qed

lemma map2_zip_same:
  "map2 f (map g ps) (zip (map h ps) (map k ps)) = map (\<lambda>i. f (g i) (h i, k i)) ps"
  by (induction ps) simp_all

lemma detect_loan_anomalies_eq:
  assumes wf: "wf_frame df"
    and p: "get_num df ''pd'' = Inr p"
    and l: "get_num df ''ecl'' = Inr l"
    and d: "get_num df ''ead'' = Inr d"
  shows "detect_loan_anomalies df T =
     (let pz = calculate_z_score p; lz = calculate_z_score l; dz = calculate_z_score d;
          df3 = set_col (set_col (set_col df ''pd_z_score'' (map Num pz))
                  ''ecl_z_score'' (map Num lz)) ''ead_z_score'' (map Num dz);
          ps = true_positions
                 (map2 (\<lambda>x yz. fgt (fabs x) T \<or> fgt (fabs (fst yz)) T \<or> fgt (fabs (snd yz)) T)
                    pz (zip lz dz));
          found = set_col (set_col (take_rows df3 ps) ''anomaly_type''
                     (map (\<lambda>i. Str (if fgt (fabs (pz ! i)) T then ''High PD''
                                     else if fgt (fabs (lz ! i)) T then ''High ECL''
                                     else ''High EAD'')) ps))
                   ''severity''
                   (map (\<lambda>i. Num (nanmax [fabs (pz ! i), fabs (lz ! i), fabs (dz ! i)])) ps)
      in (df3, Inr (take_rows found
                     (argsort False
                        (map (\<lambda>i. Num (nanmax [fabs (pz ! i), fabs (lz ! i), fabs (dz ! i)]))
                           ps)))))"
proof -
  define pz where "pz = calculate_z_score p"
  define lz where "lz = calculate_z_score l"
  define dz where "dz = calculate_z_score d"
  define df3 where "df3 = set_col (set_col (set_col df ''pd_z_score'' (map Num pz))
                  ''ecl_z_score'' (map Num lz)) ''ead_z_score'' (map Num dz)"
  define ps where "ps = true_positions
                 (map2 (\<lambda>x yz. fgt (fabs x) T \<or> fgt (fabs (fst yz)) T \<or> fgt (fabs (snd yz)) T)
                    pz (zip lz dz))"
  have l1: "get_num (set_col df ''pd_z_score'' (map Num pz)) ''ecl'' = Inr l"
    using l by simp
  have d1: "get_num (set_col (set_col df ''pd_z_score'' (map Num pz))
                  ''ecl_z_score'' (map Num lz)) ''ead'' = Inr d"
    using d by simp
  have g1: "get_num df3 ''pd_z_score'' = Inr pz" by (simp add: df3_def)
  have g2: "get_num df3 ''ecl_z_score'' = Inr lz" by (simp add: df3_def)
  have g3: "get_num df3 ''ead_z_score'' = Inr dz" by (simp add: df3_def)
  have rng: "\<forall>i\<in>set ps. i < length pz" "\<forall>i\<in>set ps. i < length lz"
    "\<forall>i\<in>set ps. i < length dz"
    by (auto simp: ps_def set_true_positions)
  have t1: "get_num (take_rows df3 ps) ''pd_z_score'' = Inr (map (nth pz) ps)"
    using g1 rng(1) by (rule get_num_take_rows)
  have t2: "get_num (take_rows df3 ps) ''ecl_z_score'' = Inr (map (nth lz) ps)"
    using g2 rng(2) by (rule get_num_take_rows)
  have t3: "get_num (take_rows df3 ps) ''ead_z_score'' = Inr (map (nth dz) ps)"
    using g3 rng(3) by (rule get_num_take_rows)
  show ?thesis
    unfolding detect_loan_anomalies_def Let_def p sum.case pz_def [symmetric] l1
      lz_def [symmetric] d1 dz_def [symmetric] df3_def [symmetric] g1 g2 g3 select_rows_def
      ps_def [symmetric] t1 t2
    by (simp add: t1 t2 t3 map2_same map2_zip_same sort_values_set_col comp_def
        del: fabs.simps fgt.simps)
qed


text \<open>
  Row by row: the output holds the rows of the input at the positions \<open>rows\<close>, which
  are the flagged positions in the order of the output, each with its scores, its label
  and its severity.
\<close>

lemma to_numeric_Num_map [simp]: "to_numeric (map (\<lambda>i. Num (g i)) ps) = Inr (map g ps)"
  by (simp add: to_numeric_def list_all_iff comp_def)

lemma get_num_set_col_same_map [simp]:
  "get_num (set_col df c (map (\<lambda>i. Num (g i)) ps)) c = Inr (map g ps)"
  by (simp add: get_num_def get_col_set_col)

lemma map_nth_map:
  "\<forall>j\<in>set perm. j < length ps \<Longrightarrow> map (nth (map f ps)) perm = map f (map (nth ps) perm)"
  by (induction perm) simp_all

lemma set_map_nth_perm:
  assumes "set perm = {0..<length xs}"
  shows "set (map (nth xs) perm) = set xs"
proof -
  have "set (map (nth xs) perm) = nth xs ` {0..<length xs}" using assms by simp
  also have "\<dots> = set xs" by (auto simp: set_conv_nth)
  finally show ?thesis .
qed

lemma distinct_true_positions [simp]: "distinct (true_positions keep)"
  by (simp add: true_positions_def)

lemma distinct_argsort [simp]: "distinct (argsort asc keys)"
  by (rule card_distinct) simp

lemma distinct_map_nth:
  assumes "distinct ps" "distinct perm" "\<forall>j\<in>set perm. j < length ps"
  shows "distinct (map (nth ps) perm)"
  using assms by (simp add: distinct_map inj_on_nth)

lemma detect_cost_rows:
  assumes wf: "wf_frame df"
    and v: "get_num df ''variance_pct'' = Inr v"
    and a: "get_num df ''actual_amount'' = Inr a"
  shows "\<exists>out rows.
      detect_cost_anomalies df T =
        (set_col (set_col df ''variance_z_score'' (map Num (calculate_z_score v)))
           ''actual_z_score'' (map Num (calculate_z_score a)), Inr out) \<and>
      set rows = {i. i < nrows df \<and> (fgt (fabs (calculate_z_score v ! i)) T
                                      \<or> fgt (fabs (calculate_z_score a ! i)) T)} \<and>
      distinct rows \<and>
      index out = map (nth (index df)) rows \<and>
      get_num out ''variance_z_score'' = Inr (map (nth (calculate_z_score v)) rows) \<and>
      get_num out ''actual_z_score'' = Inr (map (nth (calculate_z_score a)) rows) \<and>
      get_col out ''anomaly_type'' =
        Inr (map (\<lambda>i. Str (if fgt (fabs (calculate_z_score v ! i)) T then ''High Variance''
                            else ''High Amount'')) rows) \<and>
      get_num out ''severity'' =
        Inr (map (\<lambda>i. nanmax [fabs (calculate_z_score v ! i), fabs (calculate_z_score a ! i)])
               rows)"
proof -
  define vz where "vz = calculate_z_score v"
  define az where "az = calculate_z_score a"
  define df2 where "df2 = set_col (set_col df ''variance_z_score'' (map Num vz))
                  ''actual_z_score'' (map Num az)"
  define ps where "ps = true_positions (map2 (\<lambda>x y. fgt (fabs x) T \<or> fgt (fabs y) T) vz az)"
  define ty where "ty = (\<lambda>i. Str (if fgt (fabs (vz ! i)) T then ''High Variance''
                                     else ''High Amount''))"
  define sev where "sev = (\<lambda>i. nanmax [fabs (vz ! i), fabs (az ! i)])"
  define found where "found = set_col (set_col (take_rows df2 ps) ''anomaly_type'' (map ty ps))
                   ''severity'' (map (\<lambda>i. Num (sev i)) ps)"
  define perm where "perm = argsort False (map (\<lambda>i. Num (sev i)) ps)"
  define out where "out = take_rows found perm"
  define rows where "rows = map (nth ps) perm"
  have lv: "length vz = nrows df" and la: "length az = nrows df"
    using wf v a by (auto simp: vz_def az_def dest: get_num_length)
  have eq: "detect_cost_anomalies df T = (df2, Inr out)"
    unfolding detect_cost_anomalies_eq [OF wf v a]
    by (simp add: Let_def vz_def az_def df2_def ps_def found_def out_def perm_def ty_def sev_def
        del: fabs.simps fgt.simps)
  have perm: "set perm = {0..<length ps}" "\<forall>j\<in>set perm. j < length ps"
    by (simp_all add: perm_def)
  have rng: "\<forall>i\<in>set ps. i < length vz" "\<forall>i\<in>set ps. i < length az"
    by (auto simp: ps_def set_true_positions)
  have "set rows = set ps" unfolding rows_def using perm(1) by (rule set_map_nth_perm)
  also have "\<dots> = {i. i < nrows df \<and> (fgt (fabs (vz ! i)) T \<or> fgt (fabs (az ! i)) T)}"
    by (auto simp: ps_def set_true_positions lv la)
  finally have r: "set rows = {i. i < nrows df \<and> (fgt (fabs (vz ! i)) T \<or> fgt (fabs (az ! i)) T)}" .
  have dr: "distinct rows"
    unfolding rows_def using perm(2) by (intro distinct_map_nth) (simp_all add: ps_def perm_def)
  have ix: "index out = map (nth (index df)) rows"
    using perm(2) by (simp add: out_def found_def df2_def rows_def map_nth_map)
  have f1: "get_num found ''variance_z_score'' = Inr (map (nth vz) ps)"
    unfolding found_def using rng(1) by (simp add: df2_def get_num_take_rows)
  have f2: "get_num found ''actual_z_score'' = Inr (map (nth az) ps)"
    unfolding found_def using rng(2) by (simp add: df2_def get_num_take_rows)
  have f3: "get_num found ''severity'' = Inr (map sev ps)"
    unfolding found_def by simp
  have o1: "get_num out ''variance_z_score'' = Inr (map (nth vz) rows)"
    unfolding out_def rows_def using get_num_take_rows [OF f1, of perm] perm(2)
    by (simp add: map_nth_map)
  have o2: "get_num out ''actual_z_score'' = Inr (map (nth az) rows)"
    unfolding out_def rows_def using get_num_take_rows [OF f2, of perm] perm(2)
    by (simp add: map_nth_map)
  have o3: "get_num out ''severity'' = Inr (map sev rows)"
    unfolding out_def rows_def using get_num_take_rows [OF f3, of perm] perm(2)
    by (simp add: map_nth_map)
  have o4: "get_col out ''anomaly_type'' = Inr (map ty rows)"
    unfolding out_def rows_def found_def using perm(2)
    by (simp add: get_col_take_rows get_col_set_col map_nth_map)
  show ?thesis
    using eq r dr ix o1 o2 o3 o4
    unfolding vz_def az_def df2_def ty_def sev_def by blast
qed


lemma detect_loan_rows:
  assumes wf: "wf_frame df"
    and p: "get_num df ''pd'' = Inr p"
    and l: "get_num df ''ecl'' = Inr l"
    and d: "get_num df ''ead'' = Inr d"
  shows "\<exists>out rows.
      detect_loan_anomalies df T =
        (set_col (set_col (set_col df ''pd_z_score'' (map Num (calculate_z_score p)))
           ''ecl_z_score'' (map Num (calculate_z_score l)))
           ''ead_z_score'' (map Num (calculate_z_score d)), Inr out) \<and>
      set rows = {i. i < nrows df \<and> (fgt (fabs (calculate_z_score p ! i)) T
                                      \<or> fgt (fabs (calculate_z_score l ! i)) T
                                      \<or> fgt (fabs (calculate_z_score d ! i)) T)} \<and>
      distinct rows \<and>
      index out = map (nth (index df)) rows \<and>
      get_num out ''pd_z_score'' = Inr (map (nth (calculate_z_score p)) rows) \<and>
      get_num out ''ecl_z_score'' = Inr (map (nth (calculate_z_score l)) rows) \<and>
      get_num out ''ead_z_score'' = Inr (map (nth (calculate_z_score d)) rows) \<and>
      get_col out ''anomaly_type'' =
        Inr (map (\<lambda>i. Str (if fgt (fabs (calculate_z_score p ! i)) T then ''High PD''
                            else if fgt (fabs (calculate_z_score l ! i)) T then ''High ECL''
                            else ''High EAD'')) rows) \<and>
      get_num out ''severity'' =
        Inr (map (\<lambda>i. nanmax [fabs (calculate_z_score p ! i), fabs (calculate_z_score l ! i),
                               fabs (calculate_z_score d ! i)]) rows)"
proof -
  define pz where "pz = calculate_z_score p"
  define lz where "lz = calculate_z_score l"
  define dz where "dz = calculate_z_score d"
  define df3 where "df3 = set_col (set_col (set_col df ''pd_z_score'' (map Num pz))
                  ''ecl_z_score'' (map Num lz)) ''ead_z_score'' (map Num dz)"
  define ps where "ps = true_positions
                 (map2 (\<lambda>x yz. fgt (fabs x) T \<or> fgt (fabs (fst yz)) T \<or> fgt (fabs (snd yz)) T)
                    pz (zip lz dz))"
  define ty where "ty = (\<lambda>i. Str (if fgt (fabs (pz ! i)) T then ''High PD''
                                     else if fgt (fabs (lz ! i)) T then ''High ECL''
                                     else ''High EAD''))"
  define sev where "sev = (\<lambda>i. nanmax [fabs (pz ! i), fabs (lz ! i), fabs (dz ! i)])"
  define found where "found = set_col (set_col (take_rows df3 ps) ''anomaly_type'' (map ty ps))
                   ''severity'' (map (\<lambda>i. Num (sev i)) ps)"
  define perm where "perm = argsort False (map (\<lambda>i. Num (sev i)) ps)"
  define out where "out = take_rows found perm"
  define rows where "rows = map (nth ps) perm"
  have len: "length pz = nrows df" "length lz = nrows df" "length dz = nrows df"
    using wf p l d by (auto simp: pz_def lz_def dz_def dest: get_num_length)
  have eq: "detect_loan_anomalies df T = (df3, Inr out)"
    unfolding detect_loan_anomalies_eq [OF wf p l d] Let_def out_def perm_def found_def
      ty_def sev_def ps_def df3_def pz_def lz_def dz_def
    by (rule refl)
  have perm: "set perm = {0..<length ps}" "\<forall>j\<in>set perm. j < length ps"
    by (simp_all add: perm_def)
  have rng: "\<forall>i\<in>set ps. i < length pz" "\<forall>i\<in>set ps. i < length lz"
    "\<forall>i\<in>set ps. i < length dz"
    by (auto simp: ps_def set_true_positions)
  have "set rows = set ps" unfolding rows_def using perm(1) by (rule set_map_nth_perm)
  also have "\<dots> = {i. i < nrows df \<and> (fgt (fabs (pz ! i)) T \<or> fgt (fabs (lz ! i)) T
                                          \<or> fgt (fabs (dz ! i)) T)}"
    by (auto simp: ps_def set_true_positions len)
  finally have r: "set rows = {i. i < nrows df \<and> (fgt (fabs (pz ! i)) T \<or> fgt (fabs (lz ! i)) T
                                          \<or> fgt (fabs (dz ! i)) T)}" .
  have dr: "distinct rows"
    unfolding rows_def using perm(2) by (intro distinct_map_nth) (simp_all add: ps_def perm_def)
  have ix: "index out = map (nth (index df)) rows"
    using perm(2) by (simp add: out_def found_def df3_def rows_def map_nth_map)
  have f1: "get_num found ''pd_z_score'' = Inr (map (nth pz) ps)"
    unfolding found_def using rng(1) by (simp add: df3_def get_num_take_rows)
  have f2: "get_num found ''ecl_z_score'' = Inr (map (nth lz) ps)"
    unfolding found_def using rng(2) by (simp add: df3_def get_num_take_rows)
  have f3: "get_num found ''ead_z_score'' = Inr (map (nth dz) ps)"
    unfolding found_def using rng(3) by (simp add: df3_def get_num_take_rows)
  have f4: "get_num found ''severity'' = Inr (map sev ps)"
    unfolding found_def by simp
  have o1: "get_num out ''pd_z_score'' = Inr (map (nth pz) rows)"
    unfolding out_def rows_def using get_num_take_rows [OF f1, of perm] perm(2)
    by (simp add: map_nth_map)
  have o2: "get_num out ''ecl_z_score'' = Inr (map (nth lz) rows)"
    unfolding out_def rows_def using get_num_take_rows [OF f2, of perm] perm(2)
    by (simp add: map_nth_map)
  have o3: "get_num out ''ead_z_score'' = Inr (map (nth dz) rows)"
    unfolding out_def rows_def using get_num_take_rows [OF f3, of perm] perm(2)
    by (simp add: map_nth_map)
  have o4: "get_num out ''severity'' = Inr (map sev rows)"
    unfolding out_def rows_def using get_num_take_rows [OF f4, of perm] perm(2)
    by (simp add: map_nth_map)
  have o5: "get_col out ''anomaly_type'' = Inr (map ty rows)"
    unfolding out_def rows_def found_def using perm(2)
    by (simp add: get_col_take_rows get_col_set_col map_nth_map)
  show ?thesis
    using eq r dr ix o1 o2 o3 o4 o5
    unfolding pz_def lz_def dz_def df3_def ty_def sev_def by blast
qed

section \<open>Scores of small columns\<close>

lemma z_score_0004:
  "calculate_z_score [Fin 0, Fin 0, Fin 0, Fin 4] = [Fin (- 1 / 2), Fin (- 1 / 2), Fin (- 1 / 2), Fin (3 / 2)]"
proof -
  have m: "series_mean [Fin 0, Fin 0, Fin 0, Fin 4] = Fin 1"
    using series_mean_Fin [of "[0, 0, 0, 4]"] by simp
  have s: "series_std [Fin 0, Fin 0, Fin 0, Fin 4] = Fin 2"
    using series_std_Fin [of "[0, 0, 0, 4]"] by simp
  show ?thesis by (simp add: calculate_z_score_def m s)
qed

lemma z_score_8000:
  "calculate_z_score [Fin 8, Fin 0, Fin 0, Fin 0] = [Fin (3 / 2), Fin (- 1 / 2), Fin (- 1 / 2), Fin (- 1 / 2)]"
proof -
  have m: "series_mean [Fin 8, Fin 0, Fin 0, Fin 0] = Fin 2"
    using series_mean_Fin [of "[8, 0, 0, 0]"] by simp
  have sq: "sqrt 16 = 4" by (rule real_sqrt_unique) simp_all
  have "series_std (map Fin [8, 0, 0, 0]) = Fin (sqrt 16)"
    unfolding series_std_Fin by simp
  then have s: "series_std [Fin 8, Fin 0, Fin 0, Fin 0] = Fin 4"
    unfolding sq by simp
  show ?thesis by (simp add: calculate_z_score_def m s)
qed

lemma z_score_1111:
  "calculate_z_score [Fin 1, Fin 1, Fin 1, Fin 1] = [Fin 0, Fin 0, Fin 0, Fin 0]"
  using calculate_z_score_constant [of 4 1] by (simp add: numeral_eq_Suc)

lemma labels_where:
  "{xs ! i | i. i < n \<and> P i} = set (map (nth xs) (filter P [0..<n]))"
  by auto

section \<open>Cross-sectional flagging is a union\<close>

text \<open>
  Claim C5. A record is in the output of \<open>detect_cost_anomalies\<close>, and of
  \<open>detect_loan_anomalies\<close>, exactly when the absolute score of at least one watched field
  exceeds the threshold: the index labels of the output are the union of the labels
  flagged field by field. The tables are well formed and their watched columns numeric;
  the scores are those \<open>calculate_z_score\<close> gives the whole column.
\<close>

theorem flagged_is_union_over_fields:
  assumes "wf_frame costs_df"
    and "get_num costs_df ''variance_pct'' = Inr v"
    and "get_num costs_df ''actual_amount'' = Inr a"
    and "wf_frame loans_df"
    and "get_num loans_df ''pd'' = Inr p"
    and "get_num loans_df ''ecl'' = Inr l"
    and "get_num loans_df ''ead'' = Inr d"
  shows
    "(\<exists>df' out. detect_cost_anomalies costs_df T = (df', Inr out) \<and>
        set (index out) =
          {index costs_df ! i | i. i < nrows costs_df \<and> fgt (fabs (calculate_z_score v ! i)) T}
          \<union> {index costs_df ! i | i. i < nrows costs_df \<and> fgt (fabs (calculate_z_score a ! i)) T})
     \<and>
     (\<exists>df' out. detect_loan_anomalies loans_df T = (df', Inr out) \<and>
        set (index out) =
          {index loans_df ! i | i. i < nrows loans_df \<and> fgt (fabs (calculate_z_score p ! i)) T}
          \<union> {index loans_df ! i | i. i < nrows loans_df \<and> fgt (fabs (calculate_z_score l ! i)) T}
          \<union> {index loans_df ! i | i. i < nrows loans_df \<and> fgt (fabs (calculate_z_score d ! i)) T})"
proof
  from detect_cost_rows [OF assms(1-3), of T] obtain out rows df' where
    c: "detect_cost_anomalies costs_df T = (df', Inr out)"
      "set rows = {i. i < nrows costs_df \<and> (fgt (fabs (calculate_z_score v ! i)) T
                                      \<or> fgt (fabs (calculate_z_score a ! i)) T)}"
      "index out = map (nth (index costs_df)) rows"
    by blast
  have "set (index out) =
          {index costs_df ! i | i. i < nrows costs_df \<and> fgt (fabs (calculate_z_score v ! i)) T}
          \<union> {index costs_df ! i | i. i < nrows costs_df \<and> fgt (fabs (calculate_z_score a ! i)) T}"
    unfolding c(3) set_map c(2) by blast
  with c(1) show "\<exists>df' out. detect_cost_anomalies costs_df T = (df', Inr out) \<and>
        set (index out) =
          {index costs_df ! i | i. i < nrows costs_df \<and> fgt (fabs (calculate_z_score v ! i)) T}
          \<union> {index costs_df ! i | i. i < nrows costs_df \<and> fgt (fabs (calculate_z_score a ! i)) T}"
    by blast
next
  from detect_loan_rows [OF assms(4-7), of T] obtain out rows df' where
    c: "detect_loan_anomalies loans_df T = (df', Inr out)"
      "set rows = {i. i < nrows loans_df \<and> (fgt (fabs (calculate_z_score p ! i)) T
                                      \<or> fgt (fabs (calculate_z_score l ! i)) T
                                      \<or> fgt (fabs (calculate_z_score d ! i)) T)}"
      "index out = map (nth (index loans_df)) rows"
    by blast
  have "set (index out) =
          {index loans_df ! i | i. i < nrows loans_df \<and> fgt (fabs (calculate_z_score p ! i)) T}
          \<union> {index loans_df ! i | i. i < nrows loans_df \<and> fgt (fabs (calculate_z_score l ! i)) T}
          \<union> {index loans_df ! i | i. i < nrows loans_df \<and> fgt (fabs (calculate_z_score d ! i)) T}"
    unfolding c(3) set_map c(2) by blast
  with c(1) show "\<exists>df' out. detect_loan_anomalies loans_df T = (df', Inr out) \<and>
        set (index out) =
          {index loans_df ! i | i. i < nrows loans_df \<and> fgt (fabs (calculate_z_score p ! i)) T}
          \<union> {index loans_df ! i | i. i < nrows loans_df \<and> fgt (fabs (calculate_z_score l ! i)) T}
          \<union> {index loans_df ! i | i. i < nrows loans_df \<and> fgt (fabs (calculate_z_score d ! i)) T}"
    by blast
qed

theorem flagged_is_union_over_fields_witness:
  "wf_frame costs_4 \<and>
   get_num costs_4 ''variance_pct'' = Inr [Fin 0, Fin 0, Fin 0, Fin 4] \<and>
   get_num costs_4 ''actual_amount'' = Inr [Fin 8, Fin 0, Fin 0, Fin 0] \<and>
   wf_frame loans_4 \<and>
   get_num loans_4 ''pd'' = Inr [Fin 0, Fin 0, Fin 0, Fin 4] \<and>
   get_num loans_4 ''ecl'' = Inr [Fin 8, Fin 0, Fin 0, Fin 0] \<and>
   get_num loans_4 ''ead'' = Inr [Fin 1, Fin 1, Fin 1, Fin 1] \<and>
   (\<exists>df' out. detect_cost_anomalies costs_4 (Fin 1) = (df', Inr out) \<and>
              set (index out) = {13} \<union> {10}) \<and>
   (\<exists>df' out. detect_loan_anomalies loans_4 (Fin 1) = (df', Inr out) \<and>
              set (index out) = {23} \<union> {20} \<union> {})"
proof -
  let ?C = "costs_4"
  let ?L = "loans_4"
  have h: "wf_frame ?C" "get_num ?C ''variance_pct'' = Inr [Fin 0, Fin 0, Fin 0, Fin 4]"
    "get_num ?C ''actual_amount'' = Inr [Fin 8, Fin 0, Fin 0, Fin 0]"
    "wf_frame ?L" "get_num ?L ''pd'' = Inr [Fin 0, Fin 0, Fin 0, Fin 4]"
    "get_num ?L ''ecl'' = Inr [Fin 8, Fin 0, Fin 0, Fin 0]"
    "get_num ?L ''ead'' = Inr [Fin 1, Fin 1, Fin 1, Fin 1]"
    by (simp_all add: wf_frame_def get_num_def get_col_def to_numeric_def)
  have e: "{[10, 11, 12, 13::nat] ! i | i. i < nrows ?C \<and> fgt (fabs (calculate_z_score [Fin 0, Fin 0, Fin 0, Fin 4] ! i)) (Fin 1)} = {13}"
    "{[10, 11, 12, 13::nat] ! i | i. i < nrows ?C \<and> fgt (fabs (calculate_z_score [Fin 8, Fin 0, Fin 0, Fin 0] ! i)) (Fin 1)} = {10}"
    "{[20, 21, 22, 23::nat] ! i | i. i < nrows ?L \<and> fgt (fabs (calculate_z_score [Fin 0, Fin 0, Fin 0, Fin 4] ! i)) (Fin 1)} = {23}"
    "{[20, 21, 22, 23::nat] ! i | i. i < nrows ?L \<and> fgt (fabs (calculate_z_score [Fin 8, Fin 0, Fin 0, Fin 0] ! i)) (Fin 1)} = {20}"
    "{[20, 21, 22, 23::nat] ! i | i. i < nrows ?L \<and> fgt (fabs (calculate_z_score [Fin 1, Fin 1, Fin 1, Fin 1] ! i)) (Fin 1)} = {}"
    by (simp_all add: labels_where nrows_def z_score_0004 z_score_8000 z_score_1111)
  show ?thesis
    using h flagged_is_union_over_fields [OF h, of "Fin 1"] unfolding frame.simps e
    by blast
qed

section \<open>The detectors on the example tables\<close>

lemma z_score_v7:
  "calculate_z_score [Fin 2, Fin (- 1), Fin (- 1), Fin 0, Fin 0, Fin 0, Fin 0]
     = [Fin 2, Fin (- 1), Fin (- 1), Fin 0, Fin 0, Fin 0, Fin 0]"
proof -
  have m: "series_mean [Fin 2, Fin (- 1), Fin (- 1), Fin 0, Fin 0, Fin 0, Fin 0] = Fin 0"
    using series_mean_Fin [of "[2, - 1, - 1, 0, 0, 0, 0]"] by simp
  have "series_std (map Fin [2, - 1, - 1, 0, 0, 0, 0]) = Fin (sqrt 1)"
    unfolding series_std_Fin by simp
  then have s: "series_std [Fin 2, Fin (- 1), Fin (- 1), Fin 0, Fin 0, Fin 0, Fin 0] = Fin 1"
    by simp
  show ?thesis by (simp add: calculate_z_score_def Let_def m s)
qed

lemma z_score_p7:
  "calculate_z_score [Fin 0, Fin 2, Fin (- 1), Fin (- 1), Fin 0, Fin 0, Fin 0]
     = [Fin 0, Fin 2, Fin (- 1), Fin (- 1), Fin 0, Fin 0, Fin 0]"
proof -
  have m: "series_mean [Fin 0, Fin 2, Fin (- 1), Fin (- 1), Fin 0, Fin 0, Fin 0] = Fin 0"
    using series_mean_Fin [of "[0, 2, - 1, - 1, 0, 0, 0]"] by simp
  have "series_std (map Fin [0, 2, - 1, - 1, 0, 0, 0]) = Fin (sqrt 1)"
    unfolding series_std_Fin by simp
  then have s: "series_std [Fin 0, Fin 2, Fin (- 1), Fin (- 1), Fin 0, Fin 0, Fin 0] = Fin 1"
    by simp
  show ?thesis by (simp add: calculate_z_score_def Let_def m s)
qed

lemma z_score_a7:
  "calculate_z_score [Fin 30, Fin 3, Fin 6, Fin 7, Fin 8, Fin 8, Fin 8]
     = [Fin (20 / 9), Fin (- 7 / 9), Fin (- 4 / 9), Fin (- 3 / 9), Fin (- 2 / 9), Fin (- 2 / 9),
        Fin (- 2 / 9)]"
proof -
  have m: "series_mean [Fin 30, Fin 3, Fin 6, Fin 7, Fin 8, Fin 8, Fin 8] = Fin 10"
    using series_mean_Fin [of "[30, 3, 6, 7, 8, 8, 8]"] by simp
  have sq: "sqrt 81 = 9" by (rule real_sqrt_unique) simp_all
  have "series_std (map Fin [30, 3, 6, 7, 8, 8, 8]) = Fin (sqrt 81)"
    unfolding series_std_Fin by simp
  then have s: "series_std [Fin 30, Fin 3, Fin 6, Fin 7, Fin 8, Fin 8, Fin 8] = Fin 9"
    unfolding sq by simp
  show ?thesis by (simp add: calculate_z_score_def Let_def m s)
qed

lemma costs_7_ok:
  "wf_frame costs_7"
  "get_num costs_7 ''variance_pct'' = Inr [Fin 2, Fin (- 1), Fin (- 1), Fin 0, Fin 0, Fin 0, Fin 0]"
  "get_num costs_7 ''actual_amount'' = Inr [Fin 30, Fin 3, Fin 6, Fin 7, Fin 8, Fin 8, Fin 8]"
  by (simp_all add: wf_frame_def get_num_def get_col_def to_numeric_def)

lemma loans_7_ok:
  "wf_frame loans_7"
  "get_num loans_7 ''pd'' = Inr [Fin 0, Fin 2, Fin (- 1), Fin (- 1), Fin 0, Fin 0, Fin 0]"
  "get_num loans_7 ''ecl'' = Inr [Fin 30, Fin 3, Fin 6, Fin 7, Fin 8, Fin 8, Fin 8]"
  "get_num loans_7 ''ead'' = Inr [Fin 30, Fin 3, Fin 6, Fin 7, Fin 8, Fin 8, Fin 8]"
  by (simp_all add: wf_frame_def get_num_def get_col_def to_numeric_def)

lemma costs_7_found:
  "snd (detect_cost_anomalies costs_7 (Fin (3 / 2))) =
    Inr \<lparr>index = [0],
      columns = [(''variance_pct'', [Num (Fin 2)]),
                 (''actual_amount'', [Num (Fin 30)]),
                 (''variance_z_score'', [Num (Fin 2)]),
                 (''actual_z_score'', [Num (Fin (20 / 9))]),
                 (''anomaly_type'', [Str ''High Variance'']),
                 (''severity'', [Num (Fin (20 / 9))])]\<rparr>"
  unfolding detect_cost_anomalies_eq [OF costs_7_ok] z_score_v7 z_score_a7
  by (simp add: Let_def true_positions_def set_col_def take_rows_def argsort_def sort_by_def
      nanmax_def)

lemma loans_7_found:
  "snd (detect_loan_anomalies loans_7 (Fin (3 / 5))) =
    Inr \<lparr>index = [0, 1, 2, 3],
      columns = [(''pd'', map (\<lambda>x. Num (Fin x)) [0, 2, - 1, - 1]),
                 (''ecl'', map (\<lambda>x. Num (Fin x)) [30, 3, 6, 7]),
                 (''ead'', map (\<lambda>x. Num (Fin x)) [30, 3, 6, 7]),
                 (''pd_z_score'', map (\<lambda>x. Num (Fin x)) [0, 2, - 1, - 1]),
                 (''ecl_z_score'', map (\<lambda>x. Num (Fin x)) [20 / 9, - 7 / 9, - 4 / 9, - 3 / 9]),
                 (''ead_z_score'', map (\<lambda>x. Num (Fin x)) [20 / 9, - 7 / 9, - 4 / 9, - 3 / 9]),
                 (''anomaly_type'', [Str ''High ECL'', Str ''High PD'', Str ''High PD'', Str ''High PD'']),
                 (''severity'', map (\<lambda>x. Num (Fin x)) [20 / 9, 2, 1, 1])]\<rparr>"
  unfolding detect_loan_anomalies_eq [OF loans_7_ok] z_score_p7 z_score_a7
  by (simp add: Let_def true_positions_def set_col_def take_rows_def argsort_def sort_by_def
      nanmax_def)

section \<open>Labels follow the priority order\<close>

text \<open>
  Claim C3. In a flagged record where two or more watched fields exceed the threshold,
  \<open>anomaly_type\<close> is the label of the earliest of them in the order of the category:
  \<open>variance_pct\<close> before \<open>actual_amount\<close> for the costs, \<open>pd\<close> before \<open>ecl\<close> before
  \<open>ead\<close> for the loans, whichever score is larger. The scores are read from the
  output's own score columns. In \<open>costs_7\<close> at the threshold \<open>3/2\<close> record 0 has the
  scores 2 and \<open>20/9\<close> and is labelled for the first field.
\<close>

theorem label_follows_priority_order:
  assumes "wf_frame costs_df"
    and "get_num costs_df ''variance_pct'' = Inr v"
    and "get_num costs_df ''actual_amount'' = Inr a"
    and "wf_frame loans_df"
    and "get_num loans_df ''pd'' = Inr p"
    and "get_num loans_df ''ecl'' = Inr l"
    and "get_num loans_df ''ead'' = Inr d"
  shows
    "(\<exists>df' out ty vz az.
        detect_cost_anomalies costs_df T = (df', Inr out) \<and>
        get_col out ''anomaly_type'' = Inr ty \<and>
        get_num out ''variance_z_score'' = Inr vz \<and>
        get_num out ''actual_z_score'' = Inr az \<and>
        length ty = nrows out \<and> length vz = nrows out \<and> length az = nrows out \<and>
        (\<forall>j<nrows out.
           fgt (fabs (vz ! j)) T \<and> fgt (fabs (az ! j)) T \<longrightarrow> ty ! j = Str ''High Variance''))
     \<and>
     (\<exists>df' out ty pz lz dz.
        detect_loan_anomalies loans_df T = (df', Inr out) \<and>
        get_col out ''anomaly_type'' = Inr ty \<and>
        get_num out ''pd_z_score'' = Inr pz \<and>
        get_num out ''ecl_z_score'' = Inr lz \<and>
        get_num out ''ead_z_score'' = Inr dz \<and>
        length ty = nrows out \<and> length pz = nrows out \<and> length lz = nrows out \<and>
        length dz = nrows out \<and>
        (\<forall>j<nrows out.
           (fgt (fabs (pz ! j)) T \<and> (fgt (fabs (lz ! j)) T \<or> fgt (fabs (dz ! j)) T)
              \<longrightarrow> ty ! j = Str ''High PD'') \<and>
           (\<not> fgt (fabs (pz ! j)) T \<and> fgt (fabs (lz ! j)) T \<and> fgt (fabs (dz ! j)) T
              \<longrightarrow> ty ! j = Str ''High ECL'')))"
proof
  from detect_cost_rows [OF assms(1-3), of T] obtain out rows df' where
    c: "detect_cost_anomalies costs_df T = (df', Inr out)"
      "index out = map (nth (index costs_df)) rows"
      "get_num out ''variance_z_score'' = Inr (map (nth (calculate_z_score v)) rows)"
      "get_num out ''actual_z_score'' = Inr (map (nth (calculate_z_score a)) rows)"
      "get_col out ''anomaly_type'' =
        Inr (map (\<lambda>i. Str (if fgt (fabs (calculate_z_score v ! i)) T then ''High Variance''
                            else ''High Amount'')) rows)"
    by blast
  have n: "nrows out = length rows" by (simp add: nrows_def c(2))
  show "\<exists>df' out ty vz az.
        detect_cost_anomalies costs_df T = (df', Inr out) \<and>
        get_col out ''anomaly_type'' = Inr ty \<and>
        get_num out ''variance_z_score'' = Inr vz \<and>
        get_num out ''actual_z_score'' = Inr az \<and>
        length ty = nrows out \<and> length vz = nrows out \<and> length az = nrows out \<and>
        (\<forall>j<nrows out.
           fgt (fabs (vz ! j)) T \<and> fgt (fabs (az ! j)) T \<longrightarrow> ty ! j = Str ''High Variance'')"
    by (intro exI conjI, rule c(1), rule c(5), rule c(3), rule c(4)) (simp_all add: n)
next
  from detect_loan_rows [OF assms(4-7), of T] obtain out rows df' where
    c: "detect_loan_anomalies loans_df T = (df', Inr out)"
      "index out = map (nth (index loans_df)) rows"
      "get_num out ''pd_z_score'' = Inr (map (nth (calculate_z_score p)) rows)"
      "get_num out ''ecl_z_score'' = Inr (map (nth (calculate_z_score l)) rows)"
      "get_num out ''ead_z_score'' = Inr (map (nth (calculate_z_score d)) rows)"
      "get_col out ''anomaly_type'' =
        Inr (map (\<lambda>i. Str (if fgt (fabs (calculate_z_score p ! i)) T then ''High PD''
                            else if fgt (fabs (calculate_z_score l ! i)) T then ''High ECL''
                            else ''High EAD'')) rows)"
    by blast
  have n: "nrows out = length rows" by (simp add: nrows_def c(2))
  show "\<exists>df' out ty pz lz dz.
        detect_loan_anomalies loans_df T = (df', Inr out) \<and>
        get_col out ''anomaly_type'' = Inr ty \<and>
        get_num out ''pd_z_score'' = Inr pz \<and>
        get_num out ''ecl_z_score'' = Inr lz \<and>
        get_num out ''ead_z_score'' = Inr dz \<and>
        length ty = nrows out \<and> length pz = nrows out \<and> length lz = nrows out \<and>
        length dz = nrows out \<and>
        (\<forall>j<nrows out.
           (fgt (fabs (pz ! j)) T \<and> (fgt (fabs (lz ! j)) T \<or> fgt (fabs (dz ! j)) T)
              \<longrightarrow> ty ! j = Str ''High PD'') \<and>
           (\<not> fgt (fabs (pz ! j)) T \<and> fgt (fabs (lz ! j)) T \<and> fgt (fabs (dz ! j)) T
              \<longrightarrow> ty ! j = Str ''High ECL''))"
    by (intro exI conjI, rule c(1), rule c(6), rule c(3), rule c(4), rule c(5))
      (simp_all add: n)
qed

theorem label_follows_priority_order_witness:
  "wf_frame costs_7 \<and>
   get_num costs_7 ''variance_pct'' = Inr [Fin 2, Fin (- 1), Fin (- 1), Fin 0, Fin 0, Fin 0, Fin 0] \<and>
   get_num costs_7 ''actual_amount'' = Inr [Fin 30, Fin 3, Fin 6, Fin 7, Fin 8, Fin 8, Fin 8] \<and>
   wf_frame loans_7 \<and>
   get_num loans_7 ''pd'' = Inr [Fin 0, Fin 2, Fin (- 1), Fin (- 1), Fin 0, Fin 0, Fin 0] \<and>
   get_num loans_7 ''ecl'' = Inr [Fin 30, Fin 3, Fin 6, Fin 7, Fin 8, Fin 8, Fin 8] \<and>
   get_num loans_7 ''ead'' = Inr [Fin 30, Fin 3, Fin 6, Fin 7, Fin 8, Fin 8, Fin 8] \<and>
   (\<exists>df' out ty pz lz dz.
        detect_loan_anomalies loans_7 (Fin (3 / 5)) = (df', Inr out) \<and>
        get_col out ''anomaly_type'' = Inr ty \<and>
        get_num out ''pd_z_score'' = Inr pz \<and>
        get_num out ''ecl_z_score'' = Inr lz \<and>
        get_num out ''ead_z_score'' = Inr dz \<and>
        length ty = nrows out \<and> length pz = nrows out \<and> length lz = nrows out \<and>
        length dz = nrows out \<and>
        (\<forall>j<nrows out.
           (fgt (fabs (pz ! j)) (Fin (3 / 5))
              \<and> (fgt (fabs (lz ! j)) (Fin (3 / 5)) \<or> fgt (fabs (dz ! j)) (Fin (3 / 5)))
              \<longrightarrow> ty ! j = Str ''High PD'') \<and>
           (\<not> fgt (fabs (pz ! j)) (Fin (3 / 5)) \<and> fgt (fabs (lz ! j)) (Fin (3 / 5))
              \<and> fgt (fabs (dz ! j)) (Fin (3 / 5))
              \<longrightarrow> ty ! j = Str ''High ECL''))) \<and>
   snd (detect_cost_anomalies costs_7 (Fin (3 / 2))) =
    Inr \<lparr>index = [0],
      columns = [(''variance_pct'', [Num (Fin 2)]),
                 (''actual_amount'', [Num (Fin 30)]),
                 (''variance_z_score'', [Num (Fin 2)]),
                 (''actual_z_score'', [Num (Fin (20 / 9))]),
                 (''anomaly_type'', [Str ''High Variance'']),
                 (''severity'', [Num (Fin (20 / 9))])]\<rparr> \<and>
   snd (detect_loan_anomalies loans_7 (Fin (3 / 5))) =
    Inr \<lparr>index = [0, 1, 2, 3],
      columns = [(''pd'', map (\<lambda>x. Num (Fin x)) [0, 2, - 1, - 1]),
                 (''ecl'', map (\<lambda>x. Num (Fin x)) [30, 3, 6, 7]),
                 (''ead'', map (\<lambda>x. Num (Fin x)) [30, 3, 6, 7]),
                 (''pd_z_score'', map (\<lambda>x. Num (Fin x)) [0, 2, - 1, - 1]),
                 (''ecl_z_score'', map (\<lambda>x. Num (Fin x)) [20 / 9, - 7 / 9, - 4 / 9, - 3 / 9]),
                 (''ead_z_score'', map (\<lambda>x. Num (Fin x)) [20 / 9, - 7 / 9, - 4 / 9, - 3 / 9]),
                 (''anomaly_type'', [Str ''High ECL'', Str ''High PD'', Str ''High PD'', Str ''High PD'']),
                 (''severity'', map (\<lambda>x. Num (Fin x)) [20 / 9, 2, 1, 1])]\<rparr>"
  by (intro conjI costs_7_ok loans_7_ok costs_7_found loans_7_found
      conjunct2 [OF label_follows_priority_order [OF costs_7_ok loans_7_ok, of "Fin (3 / 5)"]])

section \<open>The rolling score is bounded\<close>

text \<open>
  The trailing window of the time-series detector holds the point it scores. With the
  sample standard deviation \<open>s\<close> of a window of \<open>w\<close> points and its mean \<open>m\<close>, the
  square of \<open>x - m\<close> is one of the \<open>w\<close> squares that add up to \<open>(w - 1) * s\<^sup>2\<close>, so
  the exact score of \<open>x\<close> is at most \<open>sqrt (w - 1)\<close> in absolute value.
\<close>

lemma fadd_NaN_right [simp]: "fadd x NaN = NaN"
  by (cases x) simp_all

lemma fsub_NaN_right [simp]: "fsub x NaN = NaN"
  by (simp add: fsub_def)

lemma fdiv_NaN_right [simp]: "fdiv x NaN = NaN"
  by (cases x) simp_all

lemma fsum_NaN: "NaN \<in> set xs \<Longrightarrow> fsum xs = NaN"
  by (induction xs) auto

lemma dropna_id: "NaN \<notin> set xs \<Longrightarrow> dropna xs = xs"
  by (induction xs) (auto simp: dropna_def)

lemma fadd_Fin_iff: "fadd x y = Fin s \<Longrightarrow> \<exists>a b. x = Fin a \<and> y = Fin b"
  by (cases x; cases y) simp_all

lemma member_le_sum_list_real:
  fixes f :: "'a \<Rightarrow> real"
  shows "x \<in> set xs \<Longrightarrow> (\<And>y. 0 \<le> f y) \<Longrightarrow> f x \<le> sum_list (map f xs)"
proof (induction xs)
  case Nil
  then show ?case by simp
next
  case (Cons y ys)
  have nn: "0 \<le> sum_list (map f ys)" by (rule sum_list_nonneg) (auto simp: Cons.prems)
  show ?case
  proof (cases "x = y")
    case True
    then show ?thesis using nn by simp
  next
    case False
    then have "f x \<le> sum_list (map f ys)" using Cons by auto
    moreover have "0 \<le> f y" by (rule Cons.prems)
    ultimately show ?thesis by simp
  qed
qed

lemma score_bound_real:
  fixes d q :: real
  assumes "d * d \<le> 9 * q" and "0 \<le> q"
  shows "\<not> fgt (fabs (fdiv (Fin d) (Fin (sqrt q)))) (Fin 3)"
proof (cases "q = 0")
  case True
  then have "d * d \<le> 0" using assms(1) by simp
  moreover have "0 \<le> d * d" by simp
  ultimately have "d * d = 0" by (rule antisym)
  then have "d = 0" by simp
  then show ?thesis using True by simp
next
  case False
  then have q: "0 < q" using assms(2) by simp
  then have sq: "0 < sqrt q" by simp
  have "\<bar>d\<bar> = sqrt (d * d)" by simp
  also have "\<dots> \<le> sqrt (9 * q)" using assms(1) by (rule real_sqrt_le_mono)
  also have "\<dots> = 3 * sqrt q" by (simp add: real_sqrt_mult)
  finally have "\<bar>d\<bar> / sqrt q \<le> 3" using sq by (simp add: pos_divide_le_eq)
  then show ?thesis using sq by simp
qed

lemma score_bound_Fin:
  assumes x: "x \<in> set xs" and n: "2 \<le> length xs" "length xs \<le> 10"
  shows "\<not> fgt (fabs (fdiv (fsub (Fin x) (series_mean (map Fin xs)))
                                (series_std (map Fin xs)))) (Fin 3)"
proof -
  define m where "m = sum_list xs / real (length xs)"
  define V where "V = (\<Sum>y\<leftarrow>xs. (m - y) * (m - y))"
  have V0: "0 \<le> V" unfolding V_def by (rule sum_list_nonneg) auto
  have dV: "(m - x) * (m - x) \<le> V"
    unfolding V_def by (rule member_le_sum_list_real [OF x]) simp
  have n1: "0 < real (length xs) - 1" "real (length xs) - 1 \<le> 9" using n by auto
  have "V \<le> 9 * (V / (real (length xs) - 1))"
  proof -
    have "V * (real (length xs) - 1) \<le> V * 9" using V0 n1 by (intro mult_left_mono) auto
    then show ?thesis using n1 by (simp add: pos_le_divide_eq mult.commute)
  qed
  then have b: "(x - m) * (x - m) \<le> 9 * (V / (real (length xs) - 1))"
    using dV by (simp add: algebra_simps)
  have q0: "0 \<le> V / (real (length xs) - 1)" using V0 n1 by simp
  have mean: "series_mean (map Fin xs) = Fin m" using n by (auto simp: series_mean_Fin m_def)
  have std: "series_std (map Fin xs) = Fin (sqrt (V / (real (length xs) - 1)))"
    using n unfolding series_std_Fin V_def m_def by simp
  show ?thesis unfolding mean std fsub_Fin by (rule score_bound_real [OF b q0])
qed

lemma all_fin_map: "list_all is_fin w \<Longrightarrow> \<exists>rs. w = map Fin rs"
proof (induction w)
  case Nil
  then show ?case by simp
next
  case (Cons x w)
  then obtain a rs where "x = Fin a" "w = map Fin rs" by (cases x) auto
  then have "x # w = map Fin (a # rs)" by simp
  then show ?case by (rule exI)
qed

lemma score_bound_window:
  assumes fin: "list_all is_fin w" and x: "x \<in> set w" and n: "2 \<le> length w" "length w \<le> 10"
  shows "\<not> fgt (fabs (fdiv (fsub x (series_mean w)) (series_std w))) (Fin 3)"
proof -
  from fin obtain rs where rs: "w = map Fin rs" by (auto dest: all_fin_map)
  with x obtain r where r: "x = Fin r" "r \<in> set rs" by auto
  show ?thesis using score_bound_Fin [OF r(2)] n unfolding rs r(1) by simp
qed

lemma length_rolling [simp]: "length (rolling f w xs) = length xs"
  by (simp add: rolling_def)

lemma nth_rolling:
  "i < length xs \<Longrightarrow>
   rolling f w xs ! i =
     (if i + 1 < w then NaN
      else if list_all is_fin (window_at w xs i) then f (window_at w xs i) else NaN)"
  by (simp add: rolling_def)

lemma window_at_props:
  assumes "1 \<le> w" "i < length xs" "\<not> i + 1 < w"
  shows "length (window_at w xs i) = w" and "xs ! i \<in> set (window_at w xs i)"
proof -
  show l: "length (window_at w xs i) = w" using assms by (simp add: window_at_def)
  have "window_at w xs i ! (w - 1) = xs ! i"
    using assms by (simp add: window_at_def)
  moreover have "w - 1 < length (window_at w xs i)" using l assms by simp
  ultimately show "xs ! i \<in> set (window_at w xs i)" by (metis nth_mem)
qed

lemma rolling_score_bound:
  assumes w: "2 \<le> w" "w \<le> 10" and i: "i < length v"
  shows "\<not> fgt (fabs (map2 fdiv (map2 fsub v (rolling series_mean w v))
                                 (rolling series_std w v) ! i)) (Fin 3)"
proof -
  have z: "map2 fdiv (map2 fsub v (rolling series_mean w v)) (rolling series_std w v) ! i
      = fdiv (fsub (v ! i) (rolling series_mean w v ! i)) (rolling series_std w v ! i)"
    using i by simp
  show ?thesis
  proof (cases "i + 1 < w \<or> \<not> list_all is_fin (window_at w v i)")
    case True
    then have "rolling series_std w v ! i = NaN" using i by (auto simp: nth_rolling)
    then show ?thesis unfolding z by simp
  next
    case False
    then have a: "\<not> i + 1 < w" and b: "list_all is_fin (window_at w v i)" by auto
    have w1: "1 \<le> w" using w by simp
    note p = window_at_props [OF w1 i a]
    have "\<not> fgt (fabs (fdiv (fsub (v ! i) (series_mean (window_at w v i)))
                              (series_std (window_at w v i)))) (Fin 3)"
      using b p(2) w by (intro score_bound_window) (simp_all add: p(1))
    then show ?thesis unfolding z using i a b by (simp add: nth_rolling)
  qed
qed

lemma true_positions_none: "(\<And>i. i < length keep \<Longrightarrow> \<not> keep ! i) \<Longrightarrow> true_positions keep = []"
  by (simp add: true_positions_def filter_empty_conv)

section \<open>The time-series detector, computed\<close>

lemma sort_values_Inr:
  assumes "sort_values df c asc = Inr df1"
  obtains keys where "get_col df c = Inr keys" "comparable keys"
    "df1 = take_rows df (argsort asc keys)"
  using assms by (auto simp: sort_values_def split: sum.splits if_splits)

lemma nrows_sort_values:
  assumes "wf_frame df" "sort_values df c asc = Inr df1"
  shows "nrows df1 = nrows df"
proof -
  from assms(2) obtain keys where k: "get_col df c = Inr keys"
    "df1 = take_rows df (argsort asc keys)" by (rule sort_values_Inr)
  then show ?thesis using get_col_length [OF assms(1) k(1)] by simp
qed

lemma get_num_sort_values:
  assumes wf: "wf_frame df" and s: "sort_values df c asc = Inr df1"
    and v: "get_num df c' = Inr v"
  shows "\<exists>v'. get_num df1 c' = Inr v' \<and> length v' = nrows df"
proof -
  from s obtain keys where k: "get_col df c = Inr keys"
    "df1 = take_rows df (argsort asc keys)" by (rule sort_values_Inr)
  have lk: "length keys = nrows df" using wf k(1) by (rule get_col_length)
  have lv: "length v = nrows df" using wf v by (rule get_num_length)
  have "get_num df1 c' = Inr (map (nth v) (argsort asc keys))"
    unfolding k(2) using v by (rule get_num_take_rows) (simp add: lk lv)
  then show ?thesis by (simp add: lk)
qed

lemma time_series_scores_short:
  assumes wf: "wf_frame df" and s: "sort_values df date_col True = Inr df1"
    and n: "nrows df \<le> 2"
  shows "time_series_scores df value_col date_col = Inr None"
  using n by (simp add: time_series_scores_def s nrows_sort_values [OF wf s])

lemma time_series_scores_long:
  assumes wf: "wf_frame df" and s: "sort_values df date_col True = Inr df1"
    and n: "3 \<le> nrows df"
    and v1: "get_num df1 value_col = Inr v1"
    and names: "value_col \<noteq> ''rolling_mean''" "value_col \<noteq> ''rolling_std''"
  shows "time_series_scores df value_col date_col =
     Inr (Some
       (set_col
          (set_col
             (set_col df1 ''rolling_mean''
                (map Num (rolling series_mean (nat (min 3 (int (nrows df) - 1))) v1)))
             ''rolling_std''
             (map Num (rolling series_std (nat (min 3 (int (nrows df) - 1))) v1)))
          ''rolling_z_score''
          (map Num
             (map2 fdiv
                (map2 fsub v1 (rolling series_mean (nat (min 3 (int (nrows df) - 1))) v1))
                (rolling series_std (nat (min 3 (int (nrows df) - 1))) v1)))))"
proof -
  have m: "nrows df1 = nrows df" using wf s by (rule nrows_sort_values)
  have w: "\<not> min 3 (int (nrows df) - 1) < 2" using n by simp
  show ?thesis
    unfolding time_series_scores_def s sum.case Let_def m
    using w names by (simp add: v1)
qed

lemma time_series_short:
  assumes wf: "wf_frame df" and s: "sort_values df date_col True = Inr df1"
    and n: "nrows df \<le> 2"
  shows "detect_time_series_anomalies df value_col date_col = Inr empty_frame"
  by (simp add: detect_time_series_anomalies_def time_series_scores_short [OF assms])

lemma time_series_no_flags:
  assumes wf: "wf_frame df" and s: "sort_values df date_col True = Inr df1"
    and v: "get_num df value_col = Inr v"
    and names: "value_col \<noteq> ''rolling_mean''" "value_col \<noteq> ''rolling_std''"
  shows "\<exists>out. detect_time_series_anomalies df value_col date_col = Inr out \<and> index out = []"
proof (cases "nrows df \<le> 2")
  case True
  then show ?thesis using time_series_short [OF wf s] by (simp add: empty_frame_def)
next
  case False
  then have n: "3 \<le> nrows df" by simp
  from get_num_sort_values [OF wf s v] obtain v1
    where v1: "get_num df1 value_col = Inr v1" by blast
  define w where "w = nat (min 3 (int (nrows df) - 1))"
  have w: "2 \<le> w" "w \<le> 10" using n by (auto simp: w_def)
  define z where "z = map2 fdiv (map2 fsub v1 (rolling series_mean w v1)) (rolling series_std w v1)"
  have none: "true_positions (map (\<lambda>x. fgt (fabs x) Z_SCORE_THRESHOLD) z) = []"
  proof (rule true_positions_none)
    fix i assume "i < length (map (\<lambda>x. fgt (fabs x) Z_SCORE_THRESHOLD) z)"
    then have i: "i < length v1" "i < length z" by (simp_all add: z_def)
    have "\<not> fgt (fabs (z ! i)) (Fin 3)"
      unfolding z_def using w(1,2) i(1) by (rule rolling_score_bound)
    then show "\<not> map (\<lambda>x. fgt (fabs x) Z_SCORE_THRESHOLD) z ! i"
      using i(2) by (simp add: Z_SCORE_THRESHOLD_def)
  qed
  show ?thesis
    unfolding detect_time_series_anomalies_def
      time_series_scores_long [OF wf s n v1 names] w_def [symmetric]
    by (simp add: z_def [symmetric] select_rows_def none)
qed

lemma sort_values_ok:
  "get_col df c = Inr keys \<Longrightarrow> comparable keys \<Longrightarrow>
   sort_values df c asc = Inr (take_rows df (argsort asc keys))"
  by (simp add: sort_values_def)

section \<open>Time series: the window rule\<close>

text \<open>
  Claim C6. For a series of \<open>n\<close> points the detector uses the window \<open>min(3, n - 1)\<close>.
  When \<open>n \<le> 2\<close> the window is below 2 and the detector returns the empty table and
  raises nothing; the value column is not looked at. When \<open>n \<ge> 3\<close> the window is at
  least 2, the columns \<open>rolling_mean\<close> and \<open>rolling_std\<close> of the scored table are the
  rolling statistics of the sorted values with the window \<open>min(3, n - 1)\<close>, and the
  detector returns the rows of that table whose absolute score exceeds the threshold. The
  series is a well-formed table whose date column is there and can be ordered.
\<close>

theorem time_series_window_rule:
  assumes "wf_frame df" and "sort_values df date_col True = Inr df1"
  shows
    "(nrows df \<le> 2 \<longrightarrow>
        min 3 (int (nrows df) - 1) < 2 \<and>
        time_series_scores df value_col date_col = Inr None \<and>
        detect_time_series_anomalies df value_col date_col = Inr empty_frame) \<and>
     (3 \<le> nrows df \<and> get_num df1 value_col = Inr v1 \<and>
      value_col \<noteq> ''rolling_mean'' \<and> value_col \<noteq> ''rolling_std'' \<longrightarrow>
        2 \<le> min 3 (int (nrows df) - 1) \<and>
        (\<exists>scored.
           time_series_scores df value_col date_col = Inr (Some scored) \<and>
           index scored = index df1 \<and>
           get_num scored ''rolling_mean'' =
             Inr (rolling series_mean (nat (min 3 (int (nrows df) - 1))) v1) \<and>
           get_num scored ''rolling_std'' =
             Inr (rolling series_std (nat (min 3 (int (nrows df) - 1))) v1) \<and>
           get_num scored ''rolling_z_score'' =
             Inr (map2 fdiv
                    (map2 fsub v1 (rolling series_mean (nat (min 3 (int (nrows df) - 1))) v1))
                    (rolling series_std (nat (min 3 (int (nrows df) - 1))) v1)) \<and>
           detect_time_series_anomalies df value_col date_col =
             Inr (select_rows scored
                    (map (\<lambda>x. fgt (fabs x) Z_SCORE_THRESHOLD)
                       (map2 fdiv
                          (map2 fsub v1
                             (rolling series_mean (nat (min 3 (int (nrows df) - 1))) v1))
                          (rolling series_std (nat (min 3 (int (nrows df) - 1))) v1))))))"
proof (intro conjI impI)
  assume n: "nrows df \<le> 2"
  then show "min 3 (int (nrows df) - 1) < 2" by simp
  show "time_series_scores df value_col date_col = Inr None"
    using assms n by (rule time_series_scores_short)
  show "detect_time_series_anomalies df value_col date_col = Inr empty_frame"
    using assms n by (rule time_series_short)
next
  assume h: "3 \<le> nrows df \<and> get_num df1 value_col = Inr v1 \<and>
      value_col \<noteq> ''rolling_mean'' \<and> value_col \<noteq> ''rolling_std''"
  then show "2 \<le> min 3 (int (nrows df) - 1)" by simp
  from h have n: "3 \<le> nrows df" and v1: "get_num df1 value_col = Inr v1"
    and names: "value_col \<noteq> ''rolling_mean''" "value_col \<noteq> ''rolling_std''" by simp_all
  define rm where "rm = rolling series_mean (nat (min 3 (int (nrows df) - 1))) v1"
  define rs where "rs = rolling series_std (nat (min 3 (int (nrows df) - 1))) v1"
  define z where "z = map2 fdiv (map2 fsub v1 rm) rs"
  define scored where "scored =
    set_col (set_col (set_col df1 ''rolling_mean'' (map Num rm)) ''rolling_std'' (map Num rs))
      ''rolling_z_score'' (map Num z)"
  have sc: "time_series_scores df value_col date_col = Inr (Some scored)"
    unfolding scored_def z_def rs_def rm_def
    by (rule time_series_scores_long [OF assms n v1 names])
  have g: "get_num scored ''rolling_mean'' = Inr rm" "get_num scored ''rolling_std'' = Inr rs"
    "get_num scored ''rolling_z_score'' = Inr z" "index scored = index df1"
    unfolding scored_def by simp_all
  have d: "detect_time_series_anomalies df value_col date_col =
      Inr (select_rows scored (map (\<lambda>x. fgt (fabs x) Z_SCORE_THRESHOLD) z))"
    unfolding detect_time_series_anomalies_def sc by (simp add: g)
  show "\<exists>scored.
           time_series_scores df value_col date_col = Inr (Some scored) \<and>
           index scored = index df1 \<and>
           get_num scored ''rolling_mean'' =
             Inr (rolling series_mean (nat (min 3 (int (nrows df) - 1))) v1) \<and>
           get_num scored ''rolling_std'' =
             Inr (rolling series_std (nat (min 3 (int (nrows df) - 1))) v1) \<and>
           get_num scored ''rolling_z_score'' =
             Inr (map2 fdiv
                    (map2 fsub v1 (rolling series_mean (nat (min 3 (int (nrows df) - 1))) v1))
                    (rolling series_std (nat (min 3 (int (nrows df) - 1))) v1)) \<and>
           detect_time_series_anomalies df value_col date_col =
             Inr (select_rows scored
                    (map (\<lambda>x. fgt (fabs x) Z_SCORE_THRESHOLD)
                       (map2 fdiv
                          (map2 fsub v1
                             (rolling series_mean (nat (min 3 (int (nrows df) - 1))) v1))
                          (rolling series_std (nat (min 3 (int (nrows df) - 1))) v1))))"
    using sc g d unfolding z_def rs_def rm_def by blast
qed


theorem time_series_window_rule_witness:
  "wf_frame kpis_2 \<and>
   sort_values kpis_2 ''month'' True
     = Inr \<lparr>index = [1, 0],
            columns = [(''month'', [Str ''2024-01'', Str ''2024-02'']),
                       (''profit'', [Num (Fin 900), Num (Fin 5)])]\<rparr> \<and>
   nrows kpis_2 \<le> 2 \<and>
   min 3 (int (nrows kpis_2) - 1) < 2 \<and>
   time_series_scores kpis_2 ''profit'' ''month'' = Inr None \<and>
   detect_time_series_anomalies kpis_2 ''profit'' ''month'' = Inr empty_frame \<and>
   wf_frame kpis_3 \<and> sort_values kpis_3 ''month'' True = Inr kpis_3 \<and>
   3 \<le> nrows kpis_3 \<and> get_num kpis_3 ''profit'' = Inr [Fin 1, Fin 2, Fin 100] \<and>
   min 3 (int (nrows kpis_3) - 1) = 2 \<and>
   (\<exists>scored. time_series_scores kpis_3 ''profit'' ''month'' = Inr (Some scored) \<and>
      get_num scored ''rolling_mean'' = Inr [NaN, Fin (3 / 2), Fin 51]) \<and>
   wf_frame kpis_4 \<and> sort_values kpis_4 ''month'' True = Inr kpis_4 \<and>
   3 \<le> nrows kpis_4 \<and> get_num kpis_4 ''profit'' = Inr [Fin 1, Fin 2, Fin 100, Fin 3] \<and>
   min 3 (int (nrows kpis_4) - 1) = 3 \<and>
   (\<exists>scored. time_series_scores kpis_4 ''profit'' ''month'' = Inr (Some scored) \<and>
      get_num scored ''rolling_mean'' = Inr [NaN, NaN, Fin (103 / 3), Fin 35])"
proof -
  have wf: "wf_frame kpis_2" "wf_frame kpis_3" "wf_frame kpis_4"
    by (simp_all add: wf_frame_def)
  have s2: "sort_values kpis_2 ''month'' True
     = Inr \<lparr>index = [1, 0],
            columns = [(''month'', [Str ''2024-01'', Str ''2024-02'']),
                       (''profit'', [Num (Fin 900), Num (Fin 5)])]\<rparr>"
    by (simp add: sort_values_def get_col_def comparable_def argsort_def sort_by_def
        take_rows_def)
  have s3: "sort_values kpis_3 ''month'' True = Inr kpis_3"
    by (simp add: sort_values_def get_col_def comparable_def argsort_def sort_by_def
        take_rows_def)
  have s4: "sort_values kpis_4 ''month'' True = Inr kpis_4"
    by (simp add: sort_values_def get_col_def comparable_def argsort_def sort_by_def
        take_rows_def)
  have n: "nrows kpis_2 \<le> 2" "3 \<le> nrows kpis_3" "3 \<le> nrows kpis_4"
    "min 3 (int (nrows kpis_2) - 1) < 2"
    "min 3 (int (nrows kpis_3) - 1) = 2" "min 3 (int (nrows kpis_4) - 1) = 3"
    by (simp_all add: nrows_def)
  have v3: "get_num kpis_3 ''profit'' = Inr [Fin 1, Fin 2, Fin 100]"
    by (simp add: get_num_def get_col_def to_numeric_def)
  have v4: "get_num kpis_4 ''profit'' = Inr [Fin 1, Fin 2, Fin 100, Fin 3]"
    by (simp add: get_num_def get_col_def to_numeric_def)
  have p: "''profit'' \<noteq> ''rolling_mean''" "''profit'' \<noteq> ''rolling_std''" by simp_all
  have e3: "rolling series_mean (nat (min 3 (int (nrows kpis_3) - 1))) [Fin 1, Fin 2, Fin 100]
      = [NaN, Fin (3 / 2), Fin 51]"
    unfolding n(5) by (simp add: rolling_def window_at_def series_mean_def dropna_def)
  have e4: "rolling series_mean (nat (min 3 (int (nrows kpis_4) - 1)))
        [Fin 1, Fin 2, Fin 100, Fin 3] = [NaN, NaN, Fin (103 / 3), Fin 35]"
    unfolding n(6) by (simp add: rolling_def window_at_def series_mean_def dropna_def)
  note t2 = conjunct1 [OF time_series_window_rule [OF wf(1) s2, of "''profit''"], rule_format,
      OF n(1)]
  have t3: "\<exists>scored. time_series_scores kpis_3 ''profit'' ''month'' = Inr (Some scored) \<and>
      get_num scored ''rolling_mean'' = Inr [NaN, Fin (3 / 2), Fin 51]"
    using conjunct2 [OF time_series_window_rule [OF wf(2) s3,
          of "''profit''" "[Fin 1, Fin 2, Fin 100]"]] n(2) v3 p
    unfolding e3 by blast
  have t4: "\<exists>scored. time_series_scores kpis_4 ''profit'' ''month'' = Inr (Some scored) \<and>
      get_num scored ''rolling_mean'' = Inr [NaN, NaN, Fin (103 / 3), Fin 35]"
    using conjunct2 [OF time_series_window_rule [OF wf(3) s4,
          of "''profit''" "[Fin 1, Fin 2, Fin 100, Fin 3]"]] n(3) v4 p
    unfolding e4 by blast
  show ?thesis
    by (intro conjI wf s2 s3 s4 n v3 v4 t3 t4 conjunct1 [OF conjunct2 [OF t2]]
        conjunct2 [OF conjunct2 [OF t2]])
qed

section \<open>Time series: an outlier after a flat run\<close>

text \<open>
  Claim C1. Five identical values followed by one far above them: the outlier is to be
  flagged, and it alone. The detector flags no point: the window of the outlier is
  \<open>[10, 10, 1000]\<close>, with mean 340 and sample deviation \<open>330 * sqrt 3\<close>, and the
  score of the outlier is \<open>660 / (330 * sqrt 3) = 2 / sqrt 3\<close>, below 3.
\<close>

theorem time_series_outlier_not_flagged:
  "map_sum id index
     (detect_time_series_anomalies kpis_flat_then_outlier ''total_revenue'' ''month'')
   = Inr []"
proof -
  let ?df = "kpis_flat_then_outlier"
  have wf: "wf_frame ?df" by (simp add: wf_frame_def)
  have s: "sort_values ?df ''month'' True
             = Inr (take_rows ?df (argsort True [Str ''2024-01'', Str ''2024-02'', Str ''2024-03'',
                                 Str ''2024-04'', Str ''2024-05'', Str ''2024-06'']))"
    by (rule sort_values_ok) (simp_all add: get_col_def comparable_def)
  have v: "get_num ?df ''total_revenue'' = Inr [Fin 10, Fin 10, Fin 10, Fin 10, Fin 10, Fin 1000]"
    by (simp add: get_num_def get_col_def to_numeric_def)
  from time_series_no_flags [OF wf s v] obtain out where
    "detect_time_series_anomalies ?df ''total_revenue'' ''month'' = Inr out" "index out = []"
    by auto
  then show ?thesis by simp
qed


section \<open>An injected outlier\<close>

















section \<open>The caller's table\<close>

text \<open>
  Claim C8. The detectors are to leave the table they are given as it was. The time-series
  detector does: it sorts into a copy, and the model has no table to hand back. The cost
  and the loan detector write their score columns into the caller's table: after the call
  the tables \<open>costs_7\<close> and \<open>loans_7\<close> have two and three columns more.
\<close>

theorem caller_table_is_changed:
  "map fst (columns costs_7) = [''variance_pct'', ''actual_amount''] \<and>
   map fst (columns (fst (detect_cost_anomalies costs_7 Z_SCORE_THRESHOLD))) =
     [''variance_pct'', ''actual_amount'', ''variance_z_score'', ''actual_z_score''] \<and>
   map fst (columns loans_7) = [''pd'', ''ecl'', ''ead''] \<and>
   map fst (columns (fst (detect_loan_anomalies loans_7 Z_SCORE_THRESHOLD))) =
     [''pd'', ''ecl'', ''ead'', ''pd_z_score'', ''ecl_z_score'', ''ead_z_score'']"
  unfolding detect_cost_anomalies_eq [OF costs_7_ok] detect_loan_anomalies_eq [OF loans_7_ok]
  by (simp add: Let_def set_col_def)

section \<open>Running twice\<close>

text \<open>
  A second call of a cross-sectional detector finds the score columns of the first in the
  table, overwrites them with the same scores where they stand, and returns what the
  first call returned.
\<close>

lemma set_col_triv: "get_col df c = Inr xs \<Longrightarrow> set_col df c xs = df"
  by (auto simp: get_col_def set_col_def update_triv split: option.splits)

lemma detect_cost_idem:
  "detect_cost_anomalies (fst (detect_cost_anomalies df T)) T = detect_cost_anomalies df T"
proof (cases "get_num df ''variance_pct''")
  case (Inl e)
  then show ?thesis by (simp add: detect_cost_anomalies_def)
next
  case v: (Inr v)
  define df1 where "df1 = set_col df ''variance_z_score'' (map Num (calculate_z_score v))"
  have v1: "get_num df1 ''variance_pct'' = Inr v" by (simp add: df1_def v)
  have s1: "set_col df1 ''variance_z_score'' (map Num (calculate_z_score v)) = df1"
    by (rule set_col_triv) (simp add: df1_def get_col_set_col)
  show ?thesis
  proof (cases "get_num df1 ''actual_amount''")
    case (Inl e)
    have "detect_cost_anomalies df T = (df1, Inl e)"
      by (simp add: detect_cost_anomalies_def v df1_def [symmetric] Inl)
    moreover have "detect_cost_anomalies df1 T = (df1, Inl e)"
      by (simp add: detect_cost_anomalies_def v1 s1 Inl)
    ultimately show ?thesis by simp
  next
    case a: (Inr a)
    define df2 where "df2 = set_col df1 ''actual_z_score'' (map Num (calculate_z_score a))"
    have v2: "get_num df2 ''variance_pct'' = Inr v" by (simp add: df2_def v1)
    have s2: "set_col df2 ''variance_z_score'' (map Num (calculate_z_score v)) = df2"
      by (rule set_col_triv) (simp add: df2_def df1_def get_col_set_col)
    have a2: "get_num df2 ''actual_amount'' = Inr a" by (simp add: df2_def a)
    have s3: "set_col df2 ''actual_z_score'' (map Num (calculate_z_score a)) = df2"
      by (rule set_col_triv) (simp add: df2_def get_col_set_col)
    have f: "fst (detect_cost_anomalies df T) = df2"
      by (simp add: detect_cost_anomalies_def v df1_def [symmetric] a Let_def df2_def [symmetric])
    have "snd (detect_cost_anomalies df2 T) = snd (detect_cost_anomalies df T)"
      unfolding detect_cost_anomalies_def [of df2] detect_cost_anomalies_def [of df]
        v v2 sum.case Let_def s2 a2 s3 df1_def [symmetric] a df2_def [symmetric]
      by (rule refl)
    moreover have "fst (detect_cost_anomalies df2 T) = df2"
      unfolding detect_cost_anomalies_def [of df2] v2 sum.case Let_def s2 a2 s3
      by simp
    ultimately show ?thesis unfolding f using f by (simp add: prod_eq_iff)
  qed
qed


lemma detect_loan_idem:
  "detect_loan_anomalies (fst (detect_loan_anomalies df T)) T = detect_loan_anomalies df T"
proof (cases "get_num df ''pd''")
  case (Inl e)
  then show ?thesis by (simp add: detect_loan_anomalies_def)
next
  case p: (Inr p)
  define df1 where "df1 = set_col df ''pd_z_score'' (map Num (calculate_z_score p))"
  have p1: "get_num df1 ''pd'' = Inr p" by (simp add: df1_def p)
  have s1: "set_col df1 ''pd_z_score'' (map Num (calculate_z_score p)) = df1"
    by (rule set_col_triv) (simp add: df1_def get_col_set_col)
  show ?thesis
  proof (cases "get_num df1 ''ecl''")
    case (Inl e)
    have "detect_loan_anomalies df T = (df1, Inl e)"
      by (simp add: detect_loan_anomalies_def p df1_def [symmetric] Inl)
    moreover have "detect_loan_anomalies df1 T = (df1, Inl e)"
      by (simp add: detect_loan_anomalies_def p1 s1 Inl)
    ultimately show ?thesis by simp
  next
    case l: (Inr l)
    define df2 where "df2 = set_col df1 ''ecl_z_score'' (map Num (calculate_z_score l))"
    have p2: "get_num df2 ''pd'' = Inr p" by (simp add: df2_def p1)
    have s2: "set_col df2 ''pd_z_score'' (map Num (calculate_z_score p)) = df2"
      by (rule set_col_triv) (simp add: df2_def df1_def get_col_set_col)
    have l2: "get_num df2 ''ecl'' = Inr l" by (simp add: df2_def l)
    have s3: "set_col df2 ''ecl_z_score'' (map Num (calculate_z_score l)) = df2"
      by (rule set_col_triv) (simp add: df2_def get_col_set_col)
    show ?thesis
    proof (cases "get_num df2 ''ead''")
      case (Inl e)
      have "detect_loan_anomalies df T = (df2, Inl e)"
        by (simp add: detect_loan_anomalies_def p df1_def [symmetric] l df2_def [symmetric] Inl)
      moreover have "detect_loan_anomalies df2 T = (df2, Inl e)"
        by (simp add: detect_loan_anomalies_def p2 s2 l2 s3 Inl)
      ultimately show ?thesis by simp
    next
      case d: (Inr d)
      define df3 where "df3 = set_col df2 ''ead_z_score'' (map Num (calculate_z_score d))"
      have p3: "get_num df3 ''pd'' = Inr p" by (simp add: df3_def p2)
      have t1: "set_col df3 ''pd_z_score'' (map Num (calculate_z_score p)) = df3"
        by (rule set_col_triv) (simp add: df3_def df2_def df1_def get_col_set_col)
      have l3: "get_num df3 ''ecl'' = Inr l" by (simp add: df3_def l2)
      have t2: "set_col df3 ''ecl_z_score'' (map Num (calculate_z_score l)) = df3"
        by (rule set_col_triv) (simp add: df3_def df2_def get_col_set_col)
      have d3: "get_num df3 ''ead'' = Inr d" by (simp add: df3_def d)
      have t3: "set_col df3 ''ead_z_score'' (map Num (calculate_z_score d)) = df3"
        by (rule set_col_triv) (simp add: df3_def get_col_set_col)
      have f: "fst (detect_loan_anomalies df T) = df3"
        by (simp add: detect_loan_anomalies_def p df1_def [symmetric] l Let_def
            df2_def [symmetric] d df3_def [symmetric])
      have "snd (detect_loan_anomalies df3 T) = snd (detect_loan_anomalies df T)"
        unfolding detect_loan_anomalies_def [of df3] detect_loan_anomalies_def [of df]
          p p3 sum.case Let_def t1 l3 t2 d3 t3 df1_def [symmetric] l df2_def [symmetric] d
          df3_def [symmetric]
        by (rule refl)
      moreover have "fst (detect_loan_anomalies df3 T) = df3"
        unfolding detect_loan_anomalies_def [of df3] p3 sum.case Let_def t1 l3 t2 d3 t3
        by simp
      ultimately show ?thesis unfolding f using f by (simp add: prod_eq_iff)
    qed
  qed
qed

lemma generate_anomaly_report_idem:
  "generate_anomaly_report (fst (fst (generate_anomaly_report c l k)))
     (snd (fst (generate_anomaly_report c l k))) k = generate_anomaly_report c l k"
proof -
  obtain c1 rc where dc: "detect_cost_anomalies c Z_SCORE_THRESHOLD = (c1, rc)"
    by (cases "detect_cost_anomalies c Z_SCORE_THRESHOLD")
  have dc1: "detect_cost_anomalies c1 Z_SCORE_THRESHOLD = (c1, rc)"
    using detect_cost_idem [of c Z_SCORE_THRESHOLD] by (simp add: dc)
  show ?thesis
  proof (cases rc)
    case (Inl e)
    then show ?thesis by (simp add: generate_anomaly_report_def dc dc1)
  next
    case ca: (Inr ca)
    obtain l1 rl where dl: "detect_loan_anomalies l Z_SCORE_THRESHOLD = (l1, rl)"
      by (cases "detect_loan_anomalies l Z_SCORE_THRESHOLD")
    have dl1: "detect_loan_anomalies l1 Z_SCORE_THRESHOLD = (l1, rl)"
      using detect_loan_idem [of l Z_SCORE_THRESHOLD] by (simp add: dl)
    show ?thesis
    proof (cases rl)
      case (Inl e)
      then show ?thesis by (simp add: generate_anomaly_report_def dc dc1 ca dl dl1)
    next
      case la: (Inr la)
      have s: "fst (generate_anomaly_report c l k) = (c1, l1)"
        by (simp add: generate_anomaly_report_def dc ca dl la)
      show ?thesis
        unfolding s fst_conv snd_conv
        unfolding generate_anomaly_report_def dc dc1 ca dl dl1 la prod.case sum.case
        by (rule refl)
    qed
  qed
qed

lemma generate_anomaly_report_state:
  assumes "generate_anomaly_report c l k = ((c1, l1), Inr summary)"
  shows "fst (detect_cost_anomalies c1 Z_SCORE_THRESHOLD) = c1"
    and "fst (detect_loan_anomalies l1 Z_SCORE_THRESHOLD) = l1"
proof -
  obtain c' rc where dc: "detect_cost_anomalies c Z_SCORE_THRESHOLD = (c', rc)"
    by (cases "detect_cost_anomalies c Z_SCORE_THRESHOLD")
  obtain l' rl where dl: "detect_loan_anomalies l Z_SCORE_THRESHOLD = (l', rl)"
    by (cases "detect_loan_anomalies l Z_SCORE_THRESHOLD")
  from assms have "c1 = c' \<and> l1 = l'"
    by (cases rc; cases rl) (simp_all add: generate_anomaly_report_def dc dl)
  then show "fst (detect_cost_anomalies c1 Z_SCORE_THRESHOLD) = c1"
    and "fst (detect_loan_anomalies l1 Z_SCORE_THRESHOLD) = l1"
    using detect_cost_idem [of c Z_SCORE_THRESHOLD] detect_loan_idem [of l Z_SCORE_THRESHOLD]
    by (simp_all add: dc dl)
qed

lemma run_state:
  "generate_anomaly_report (costs (fst (run d k))) (loans (fst (run d k))) k
     = generate_anomaly_report (costs d) (loans d) k"
proof -
  obtain c1 l1 r where g: "generate_anomaly_report (costs d) (loans d) k = ((c1, l1), r)"
    by (cases "generate_anomaly_report (costs d) (loans d) k") auto
  have i: "generate_anomaly_report c1 l1 k = ((c1, l1), r)"
    using generate_anomaly_report_idem [of "costs d" "loans d" k] by (simp add: g)
  show ?thesis
  proof (cases r)
    case (Inl e)
    then have "fst (run d k) = \<lparr>costs = c1, loans = l1\<rparr>" by (simp add: run_def g)
    then show ?thesis by (simp add: g i)
  next
    case (Inr summary)
    note st = generate_anomaly_report_state [OF g [unfolded Inr]]
    have "fst (run d k) = \<lparr>costs = c1, loans = l1\<rparr>"
      using st by (auto simp: run_def g Inr split: prod.splits sum.splits)
    then show ?thesis by (simp add: g i)
  qed
qed

text \<open>
  Claim C10. Running the pipeline twice on the same data gives the same result tables.
  The second run works on the tables as the first run left them, score columns included;
  it returns the same summary, saves the same files in the same order, and leaves the
  tables as it found them. The same holds for \<open>generate_anomaly_report\<close> alone.
\<close>

theorem pipeline_is_repeatable:
  "run (fst (run d monthly_kpis)) monthly_kpis = run d monthly_kpis \<and>
   generate_anomaly_report
     (fst (fst (generate_anomaly_report costs_df loans_df monthly_kpis)))
     (snd (fst (generate_anomaly_report costs_df loans_df monthly_kpis))) monthly_kpis
   = generate_anomaly_report costs_df loans_df monthly_kpis"
proof
  show "run (fst (run d monthly_kpis)) monthly_kpis = run d monthly_kpis"
    unfolding run_def [of "fst (run d monthly_kpis)"] run_state
    unfolding run_def [of d] by (rule refl)
  show "generate_anomaly_report
     (fst (fst (generate_anomaly_report costs_df loans_df monthly_kpis)))
     (snd (fst (generate_anomaly_report costs_df loans_df monthly_kpis))) monthly_kpis
   = generate_anomaly_report costs_df loans_df monthly_kpis"
    by (rule generate_anomaly_report_idem)
qed

section \<open>A failing detector\<close>

lemma costs_7_detected:
  "\<exists>c1 found. detect_cost_anomalies costs_7 Z_SCORE_THRESHOLD = (c1, Inr found)"
  using detect_cost_rows [OF costs_7_ok, of Z_SCORE_THRESHOLD] by blast

lemma loans_7_detected:
  "\<exists>l1 found. detect_loan_anomalies loans_7 Z_SCORE_THRESHOLD = (l1, Inr found)"
  using detect_loan_rows [OF loans_7_ok, of Z_SCORE_THRESHOLD] by blast

lemma loans_no_pd_fails:
  "detect_loan_anomalies loans_no_pd Z_SCORE_THRESHOLD = (loans_no_pd, Inl (KeyError ''pd''))"
  by (simp add: detect_loan_anomalies_def get_num_def get_col_def)

lemma costs_no_variance_fails:
  "detect_cost_anomalies costs_no_variance Z_SCORE_THRESHOLD
     = (costs_no_variance, Inl (KeyError ''variance_pct''))"
  by (simp add: detect_cost_anomalies_def get_num_def get_col_def)

lemma kpis_no_month_fails:
  "analyze_monthly_kpi_anomalies kpis_no_month = Inl (KeyError ''month'')"
  by (simp add: analyze_monthly_kpi_anomalies_def kpi_columns_def has_col_def
      detect_time_series_anomalies_def time_series_scores_def sort_values_def get_col_def)

text \<open>
  Claim C9. When one category's detector raises, the report is to be partial: the other
  categories' rows, the failing one left out. Nothing in \<open>generate_anomaly_report\<close> or
  \<open>run\<close> catches an exception: with the column \<open>pd\<close> missing from the loans the
  KeyError leaves \<open>generate_anomaly_report\<close> without any summary, \<open>run\<close> saves no file,
  and \<open>main\<close> returns 1.
\<close>

theorem failure_isolation_counterexample:
  "snd (generate_anomaly_report costs_7 loans_no_pd kpis_4) = Inl (KeyError ''pd'') \<and>
   snd (run \<lparr>costs = costs_7, loans = loans_no_pd\<rparr> kpis_4) = ([], Inl (KeyError ''pd'')) \<and>
   main \<lparr>costs = costs_7, loans = loans_no_pd\<rparr> kpis_4 = 1"
proof -
  from costs_7_detected obtain c1 found where
    c: "detect_cost_anomalies costs_7 Z_SCORE_THRESHOLD = (c1, Inr found)" by blast
  have g: "generate_anomaly_report costs_7 loans_no_pd kpis_4
      = ((c1, loans_no_pd), Inl (KeyError ''pd''))"
    unfolding generate_anomaly_report_def c loans_no_pd_fails by simp
  have r: "run \<lparr>costs = costs_7, loans = loans_no_pd\<rparr> kpis_4
      = (\<lparr>costs = c1, loans = loans_no_pd\<rparr>, [], Inl (KeyError ''pd''))"
    unfolding run_def data.select_convs g by simp
  show ?thesis unfolding main_def g r by simp
qed

text \<open>
  Claim C9, as the code has it. An exception of the cost detector, of the loan detector
  or of the KPI analysis is the outcome of \<open>generate_anomaly_report\<close>, which then
  returns no summary; \<open>run\<close> passes it on before any file is saved, and the handler of
  \<open>main\<close> turns it into the exit code 1.
\<close>

theorem detector_failure_aborts_report:
  "(snd (detect_cost_anomalies costs_df Z_SCORE_THRESHOLD) = Inl e \<longrightarrow>
      snd (generate_anomaly_report costs_df loans_df monthly_kpis) = Inl e) \<and>
   (snd (detect_cost_anomalies costs_df Z_SCORE_THRESHOLD) = Inr cost_anomalies \<and>
    snd (detect_loan_anomalies loans_df Z_SCORE_THRESHOLD) = Inl e \<longrightarrow>
      snd (generate_anomaly_report costs_df loans_df monthly_kpis) = Inl e) \<and>
   (snd (detect_cost_anomalies costs_df Z_SCORE_THRESHOLD) = Inr cost_anomalies \<and>
    snd (detect_loan_anomalies loans_df Z_SCORE_THRESHOLD) = Inr loan_anomalies \<and>
    analyze_monthly_kpi_anomalies monthly_kpis = Inl e \<longrightarrow>
      snd (generate_anomaly_report costs_df loans_df monthly_kpis) = Inl e) \<and>
   (snd (generate_anomaly_report (costs d) (loans d) monthly_kpis) = Inl e \<longrightarrow>
      snd (run d monthly_kpis) = ([], Inl e) \<and> main d monthly_kpis = 1)"
proof (intro conjI impI)
  assume "snd (detect_cost_anomalies costs_df Z_SCORE_THRESHOLD) = Inl e"
  then show "snd (generate_anomaly_report costs_df loans_df monthly_kpis) = Inl e"
    by (cases "detect_cost_anomalies costs_df Z_SCORE_THRESHOLD")
      (simp add: generate_anomaly_report_def)
next
  assume "snd (detect_cost_anomalies costs_df Z_SCORE_THRESHOLD) = Inr cost_anomalies \<and>
    snd (detect_loan_anomalies loans_df Z_SCORE_THRESHOLD) = Inl e"
  then show "snd (generate_anomaly_report costs_df loans_df monthly_kpis) = Inl e"
    by (cases "detect_cost_anomalies costs_df Z_SCORE_THRESHOLD";
        cases "detect_loan_anomalies loans_df Z_SCORE_THRESHOLD")
      (simp add: generate_anomaly_report_def)
next
  assume "snd (detect_cost_anomalies costs_df Z_SCORE_THRESHOLD) = Inr cost_anomalies \<and>
    snd (detect_loan_anomalies loans_df Z_SCORE_THRESHOLD) = Inr loan_anomalies \<and>
    analyze_monthly_kpi_anomalies monthly_kpis = Inl e"
  then show "snd (generate_anomaly_report costs_df loans_df monthly_kpis) = Inl e"
    by (cases "detect_cost_anomalies costs_df Z_SCORE_THRESHOLD";
        cases "detect_loan_anomalies loans_df Z_SCORE_THRESHOLD")
      (simp add: generate_anomaly_report_def)
next
  assume a: "snd (generate_anomaly_report (costs d) (loans d) monthly_kpis) = Inl e"
  then show "snd (run d monthly_kpis) = ([], Inl e)"
    by (cases "generate_anomaly_report (costs d) (loans d) monthly_kpis")
      (auto simp: run_def)
  then show "main d monthly_kpis = 1" by (simp add: main_def)
qed

theorem detector_failure_aborts_report_witness:
  "snd (detect_cost_anomalies costs_no_variance Z_SCORE_THRESHOLD) = Inl (KeyError ''variance_pct'') \<and>
   snd (generate_anomaly_report costs_no_variance loans_7 kpis_4) = Inl (KeyError ''variance_pct'') \<and>
   (\<exists>found. snd (detect_cost_anomalies costs_7 Z_SCORE_THRESHOLD) = Inr found) \<and>
   snd (detect_loan_anomalies loans_no_pd Z_SCORE_THRESHOLD) = Inl (KeyError ''pd'') \<and>
   snd (generate_anomaly_report costs_7 loans_no_pd kpis_4) = Inl (KeyError ''pd'') \<and>
   (\<exists>found. snd (detect_loan_anomalies loans_7 Z_SCORE_THRESHOLD) = Inr found) \<and>
   analyze_monthly_kpi_anomalies kpis_no_month = Inl (KeyError ''month'') \<and>
   snd (generate_anomaly_report costs_7 loans_7 kpis_no_month) = Inl (KeyError ''month'') \<and>
   snd (run \<lparr>costs = costs_7, loans = loans_no_pd\<rparr> kpis_4) = ([], Inl (KeyError ''pd'')) \<and>
   main \<lparr>costs = costs_7, loans = loans_no_pd\<rparr> kpis_4 = 1"
proof -
  from costs_7_detected obtain c1 cf where
    c: "snd (detect_cost_anomalies costs_7 Z_SCORE_THRESHOLD) = Inr cf" by force
  from loans_7_detected obtain l1 lf where
    l: "snd (detect_loan_anomalies loans_7 Z_SCORE_THRESHOLD) = Inr lf" by force
  have h1: "snd (detect_cost_anomalies costs_no_variance Z_SCORE_THRESHOLD)
      = Inl (KeyError ''variance_pct'')" unfolding costs_no_variance_fails by simp
  have h2: "snd (detect_loan_anomalies loans_no_pd Z_SCORE_THRESHOLD) = Inl (KeyError ''pd'')"
    unfolding loans_no_pd_fails by simp
  note h3 = kpis_no_month_fails
  note t = detector_failure_aborts_report
  have g1: "snd (generate_anomaly_report costs_no_variance loans_7 kpis_4)
      = Inl (KeyError ''variance_pct'')"
    using t [of costs_no_variance "KeyError ''variance_pct''" loans_7 kpis_4] h1 by blast
  have g2: "snd (generate_anomaly_report costs_7 loans_no_pd kpis_4) = Inl (KeyError ''pd'')"
    using t [of costs_7 "KeyError ''pd''" loans_no_pd kpis_4 cf] c h2 by blast
  have g3: "snd (generate_anomaly_report costs_7 loans_7 kpis_no_month) = Inl (KeyError ''month'')"
    using t [of costs_7 "KeyError ''month''" loans_7 kpis_no_month cf lf] c l h3 by blast
  have g4: "snd (run \<lparr>costs = costs_7, loans = loans_no_pd\<rparr> kpis_4) = ([], Inl (KeyError ''pd''))
      \<and> main \<lparr>costs = costs_7, loans = loans_no_pd\<rparr> kpis_4 = 1"
    using t [of costs_7 "KeyError ''pd''" loans_no_pd kpis_4 cf lf
        "\<lparr>costs = costs_7, loans = loans_no_pd\<rparr>"] g2
    unfolding data.select_convs by blast
  show ?thesis using c l h1 h2 h3 g1 g2 g3 g4 by blast
qed

section \<open>Zero variance and the single row\<close>

text \<open>
  Claim C4. The Score Calculator is to return the score 0 for every row of a column
  without variance, all values identical or a single value. A column of two or more
  identical values gets the score 0 in every row (\<open>calculate_z_score_constant\<close>). For a
  column of one value the sample standard deviation is NaN, the test \<open>std == 0\<close> fails,
  and the score of the only row is NaN, not 0.
\<close>

theorem calculate_z_score_single_row: "calculate_z_score [Fin x] = [NaN]"
  by (simp add: calculate_z_score_def series_std_def series_mean_def dropna_def fsub_def)

end
